theory Spec2Isabelle
  imports Main "HOL-Library.AList" "HOL-Library.Sublist"
begin

section \<open>The render middleware of packages/server/src/middleware/nuxt.js\<close>

text \<open>
  The file exports one asynchronous request handler, \<open>nuxtMiddleware(req, res, next)\<close>,
  and three helpers: \<open>defaultPushAssets\<close>, \<open>getCspString\<close> and
  \<open>transformPolicyObject\<close>. The helpers are pure up to a logger call and the
  mutation of a \<open>Set\<close>; the handler works on the response object, the request
  context, the hook dispatcher and the \<open>next\<close> callback. The embedding keeps the
  helpers as functions and threads a \<open>world\<close> through the handler: the status
  code of the response, the two fields of the context the handler reads, and the trace
  of every call the handler makes on its collaborators, in order.
\<close>

subsection \<open>JavaScript values\<close>

text \<open>An exception value. \<open>TypeError\<close> is what the handler itself can raise (a
  property read on \<open>undefined\<close> or \<open>null\<close>, a call of a missing method);
  \<open>RangeError\<close> is what the response raises on a status code it cannot send; the
  others come from collaborators.\<close>

datatype exn = TypeError string | RangeError string | URIError string | Error string

text \<open>\<open>Array.prototype.join\<close> on an array of strings.\<close>

fun join :: "string \<Rightarrow> string list \<Rightarrow> string" where
  "join sep [] = []"
| "join sep [x] = x"
| "join sep (x # y # ys) = x @ sep @ join sep (y # ys)"

text \<open>A \<open>Set\<close> of strings is the list of its members in insertion order:
  \<open>Array.from\<close> and \<open>forEach\<close> enumerate it in that order, \<open>add\<close> appends
  a member that is not there yet, and \<open>new Set(array)\<close> adds the entries of the
  array one after the other.\<close>

definition Set_add :: "string list \<Rightarrow> string \<Rightarrow> string list" where
  "Set_add s x = (if x \<in> set s then s else s @ [x])"

definition new_Set :: "string list \<Rightarrow> string list" where
  "new_Set xs = fold (\<lambda>x s. Set_add s x) xs []"

text \<open>\<open>a || b\<close> on an optional number: \<open>undefined\<close> and \<open>0\<close> are falsy.\<close>

fun js_or :: "int option \<Rightarrow> int \<Rightarrow> int" where
  "js_or None d = d"
| "js_or (Some n) d = (if n = 0 then d else n)"

text \<open>The apostrophe cannot end a string literal, so the quoted source keywords
  are spelled out.\<close>

definition self_src :: string where
  "self_src = CHR 0x27 # ''self'' @ [CHR 0x27]"

definition unsafe_eval_src :: string where
  "unsafe_eval_src = CHR 0x27 # ''unsafe-eval'' @ [CHR 0x27]"

subsection \<open>Data model\<close>

text \<open>The error object of the application: \<open>statusCode\<close> may be missing.\<close>

record nuxt_error =
  error_statusCode :: "int option"

text \<open>One entry of \<open>getPreloadFiles()\<close>.\<close>

record preload =
  "file" :: string
  asType :: string
  fileWithoutQuery :: string
  modern :: bool

text \<open>The value \<open>renderRoute\<close> resolves to. \<open>error\<close> is \<open>None\<close> when the
  field is \<open>undefined\<close> or \<open>null\<close>; \<open>getPreloadFiles\<close> is a function of no
  argument that may throw.\<close>

record result =
  html :: string
  cspScriptSrcHashSet :: "string list"
  error :: "nuxt_error option"
  redirected :: bool
  getPreloadFiles :: "unit \<Rightarrow> exn + preload list"

datatype header_value = HString string | HNumber nat

text \<open>The calls of the handler on its collaborators: \<open>res.setHeader(name, value)\<close>,
  \<open>res.end()\<close> and \<open>res.end(html, 'utf8')\<close>, \<open>nuxt.callHook(name, url, result,
  context)\<close>, \<open>next(err)\<close>, \<open>consola.error(err)\<close> and \<open>consola.warn(msg)\<close>.
  A call that throws is not recorded. \<open>res.setHeader\<close>, the logger and \<open>next\<close>
  are taken to accept every call; \<open>res.end\<close> throws on a status code the response
  cannot send (see \<open>sendResponse\<close>). A hook that is not awaited
  (\<open>render:routeDone\<close>) is recorded as dispatched; what its listeners do is not part
  of the handler.\<close>

datatype event =
    SetHeader string header_value
  | End "string option"
  | CallHook string string result
  | Next exn
  | ConsolaError exn
  | ConsolaWarn string

text \<open>\<open>context_nuxt\<close> is \<open>None\<close> when \<open>context.nuxt\<close> is undefined, and
  \<open>Some None\<close> when \<open>context.nuxt.error\<close> is \<open>null\<close> or undefined. The handler
  gets its context from \<open>getContext(req, res)\<close>, a function of another package: the
  context fields of the world the handler starts in are what that call returned.\<close>

record world =
  res_statusCode :: int
  context_nuxt :: "nuxt_error option option"
  context_redirected :: bool
  trace :: "event list"

definition emit :: "event \<Rightarrow> world \<Rightarrow> world" where
  "emit ev w = w\<lparr>trace := trace w @ [ev]\<rparr>"

record request =
  url :: string
  headers :: "(string \<times> string) list"

text \<open>A value of the \<open>policies\<close> object: an array of strings, or anything else
  (a string, a number, \<open>null\<close>), which has no \<open>join\<close> method.\<close>

datatype policy_value = PolicyArray "string list" | PolicyOther

text \<open>\<open>options.render.csp\<close>. \<open>allowedSources\<close> is \<open>Some\<close> exactly when
  \<open>Array.isArray\<close> holds of it. \<open>policies\<close> is \<open>Some\<close> exactly when it is an
  object that is neither \<open>null\<close> nor an array; its entries are listed in the order
  of \<open>Object.entries\<close> (the keys are directive names, enumerated in insertion
  order).\<close>

record csp_options =
  allowedSources :: "string list option"
  policies :: "(string \<times> policy_value) list option"
  reportOnly :: bool

record etag_options =
  weak :: bool

text \<open>The options the handler reads. A field is \<open>None\<close> when the option is falsy.
  \<open>pushAssets\<close> is a user function that receives the response; \<open>shouldPush\<close> is
  a user predicate on \<open>fileWithoutQuery\<close> and \<open>asType\<close>.\<close>

record options =
  dev :: bool
  render_etag :: "etag_options option"
  http2_push :: bool
  http2_shouldPush :: "(string \<Rightarrow> string \<Rightarrow> bool) option"
  http2_pushAssets ::
    "(request \<Rightarrow> string \<Rightarrow> preload list \<Rightarrow> world \<Rightarrow> (exn + string list) \<times> world) option"
  render_csp :: "csp_options option"
  build_crossorigin :: "string option"

text \<open>What the factory closes over (\<open>options\<close>, \<open>nuxt\<close>, \<open>renderRoute\<close>,
  \<open>resources\<close>) and the library functions the file imports. \<open>renderRoute\<close> and
  the awaited hook \<open>render:route\<close> receive the context (and through it the
  response) and may change both, or throw; the hook may also change the result it is
  handed.\<close>

record env =
  opts :: options
  renderRoute :: "string \<Rightarrow> world \<Rightarrow> (exn + result) \<times> world"
  awaitHook :: "string \<Rightarrow> string \<Rightarrow> result \<Rightarrow> world \<Rightarrow> (exn + result) \<times> world"
  publicPath :: string
  decodeURI :: "string \<Rightarrow> exn + string"
  generateETag :: "string \<Rightarrow> etag_options \<Rightarrow> string"
  fresh :: "(string \<times> string) list \<Rightarrow> string \<Rightarrow> bool"

text \<open>What the promise of the handler resolves to: the HTML, \<open>undefined\<close>, or a
  caught exception returned as a value.\<close>

datatype ret = Html string | Undefined | Err exn

subsection \<open>defaultPushAssets (lines 90 to 115)\<close>

text \<open>\<open>pushLink\<close> is the template literal of line 112; an empty
  \<open>build.crossorigin\<close> is falsy. \<open>pushEach\<close> is the callback of \<open>forEach\<close>,
  with the array \<open>links\<close> it pushes to as accumulator: its two early returns leave
  the array as it is.\<close>

definition pushLink :: "string \<Rightarrow> options \<Rightarrow> preload \<Rightarrow> string" where
  "pushLink pp os p =
     (let crossorigin = build_crossorigin os;
          cors = (case crossorigin of
                    None \<Rightarrow> []
                  | Some c \<Rightarrow> if c = [] then [] else '' crossorigin='' @ c @ '';'');
          ref = (if modern p then ''modulepreload'' else ''preload'')
      in ''<'' @ pp @ file p @ ''>; rel='' @ ref @ '';'' @ cors @ '' as='' @ asType p)"

definition pushEach ::
  "(string \<Rightarrow> string \<Rightarrow> bool) option \<Rightarrow> string \<Rightarrow> options \<Rightarrow> preload \<Rightarrow> string list \<Rightarrow> string list"
  where
  "pushEach shouldPush pp os p links =
     (if shouldPush = None \<and> asType p \<noteq> ''script'' \<and> asType p \<noteq> ''style'' then links
      else if (case shouldPush of None \<Rightarrow> False
               | Some f \<Rightarrow> \<not> f (fileWithoutQuery p) (asType p)) then links
      else links @ [pushLink pp os p])"

definition defaultPushAssets ::
  "preload list \<Rightarrow> (string \<Rightarrow> string \<Rightarrow> bool) option \<Rightarrow> string \<Rightarrow> options \<Rightarrow> world
     \<Rightarrow> string list \<times> world"
  where
  "defaultPushAssets preloadFiles shouldPush pp os w =
     (let w1 = (if shouldPush \<noteq> None \<and> dev os
                then emit (ConsolaWarn
                  ''http2.shouldPush is deprecated. Use http2.pushAssets function'') w
                else w)
      in (fold (pushEach shouldPush pp os) preloadFiles [], w1))"

subsection \<open>transformPolicyObject and getCspString (lines 117 to 149)\<close>

text \<open>The set argument is mutated in place, so the function also returns the set as
  it is after the call. The spread followed by the \<open>script-src\<close> key keeps the
  position of an existing \<open>script-src\<close> entry and appends a new one otherwise.\<close>

definition transformPolicyObject ::
  "(string \<times> policy_value) list \<Rightarrow> string list
     \<Rightarrow> (string \<times> policy_value) list \<times> string list"
  where
  "transformPolicyObject ps hashSet =
     (let hashAndPolicySet = Set_add hashSet self_src;
          hashAndPolicySet =
            (case map_of ps ''script-src'' of
               Some (PolicyArray srcs) \<Rightarrow>
                 fold (\<lambda>src s. Set_add s src) (new_Set srcs) hashAndPolicySet
             | _ \<Rightarrow> hashAndPolicySet)
      in (AList.update ''script-src'' (PolicyArray hashAndPolicySet) ps, hashAndPolicySet))"

text \<open>\<open>entries.map(([k, v]) => `${k} ${v.join(' ')}`)\<close>: the first value without a
  \<open>join\<close> method throws.\<close>

fun policyLines :: "(string \<times> policy_value) list \<Rightarrow> exn + string list" where
  "policyLines [] = Inr []"
| "policyLines ((k, PolicyOther) # kvs) = Inl (TypeError ''v.join is not a function'')"
| "policyLines ((k, PolicyArray v) # kvs) =
     (case policyLines kvs of
        Inl e \<Rightarrow> Inl e
      | Inr ls \<Rightarrow> Inr ((k @ '' '' @ join '' '' v) # ls))"

definition baseCspStr :: "string list \<Rightarrow> bool \<Rightarrow> string" where
  "baseCspStr hashSet isDev =
     ''script-src '' @ self_src @ (if isDev then '' '' @ unsafe_eval_src else [])
       @ '' '' @ join '' '' hashSet"

definition getCspString ::
  "string list \<Rightarrow> string list option \<Rightarrow> (string \<times> policy_value) list option \<Rightarrow> bool
     \<Rightarrow> (exn + string) \<times> string list"
  where
  "getCspString hashSet allowed pols isDev =
     (case allowed of
        Some srcs \<Rightarrow> (Inr (baseCspStr hashSet isDev @ '' '' @ join '' '' srcs), hashSet)
      | None \<Rightarrow>
          (case pols of
             Some ps \<Rightarrow>
               (let (transformed, hashSet') = transformPolicyObject ps hashSet
                in (case policyLines transformed of
                      Inl e \<Rightarrow> (Inl e, hashSet')
                    | Inr ls \<Rightarrow> (Inr (join ''; '' ls), hashSet')))
           | None \<Rightarrow> (Inr (baseCspStr hashSet isDev), hashSet)))"

subsection \<open>nuxtMiddleware (lines 7 to 88)\<close>

text \<open>Lines 28 to 30: \<open>if (error) res.statusCode = context.nuxt.error.statusCode || 500\<close>.
  The test is on the \<open>error\<close> field of the result; the status code is read from the
  context, and the read throws when \<open>context.nuxt\<close> or its \<open>error\<close> is missing.\<close>

definition errorStatus :: "result \<Rightarrow> world \<Rightarrow> exn + world" where
  "errorStatus r w =
     (case error r of
        None \<Rightarrow> Inr w
      | Some _ \<Rightarrow>
          (case context_nuxt w of
             None \<Rightarrow> Inl (TypeError ''Cannot read property 'error' of undefined'')
           | Some None \<Rightarrow> Inl (TypeError ''Cannot read property 'statusCode' of null'')
           | Some (Some ce) \<Rightarrow> Inr (w\<lparr>res_statusCode := js_or (error_statusCode ce) 500\<rparr>)))"

text \<open>Lines 33 to 42, the ETag header. \<open>Some v\<close> is the early \<open>return\<close>.\<close>

definition etagStep :: "env \<Rightarrow> request \<Rightarrow> string \<Rightarrow> result \<Rightarrow> world \<Rightarrow> ret option \<times> world" where
  "etagStep en req u r w =
     (case (error r, render_etag (opts en)) of
        (None, Some eo) \<Rightarrow>
          (let etag = generateETag en (html r) eo
           in if fresh en (headers req) etag
              then (Some Undefined,
                    emit (CallHook ''render:routeDone'' u r)
                      (emit (End None) (w\<lparr>res_statusCode := 304\<rparr>)))
              else (None, emit (SetHeader ''ETag'' (HString etag)) w))
      | _ \<Rightarrow> (None, w))"

text \<open>Lines 45 to 63, the HTTP/2 push header. \<open>Some e\<close> is an exception.\<close>

definition pushStep :: "env \<Rightarrow> request \<Rightarrow> result \<Rightarrow> world \<Rightarrow> exn option \<times> world" where
  "pushStep en req r w =
     (if error r = None \<and> http2_push (opts en) then
        (case getPreloadFiles r () of
           Inl e \<Rightarrow> (Some e, w)
         | Inr preloadFiles \<Rightarrow>
             (case (case http2_pushAssets (opts en) of
                      Some pushAssets \<Rightarrow> pushAssets req (publicPath en) preloadFiles w
                    | None \<Rightarrow>
                        (let (ls, w') = defaultPushAssets preloadFiles
                                          (http2_shouldPush (opts en)) (publicPath en) (opts en) w
                         in (Inr ls, w'))) of
                (Inl e, w1) \<Rightarrow> (Some e, w1)
              | (Inr links, w1) \<Rightarrow>
                  (None, if length links > 0
                         then emit (SetHeader ''Link'' (HString (join '', '' links))) w1
                         else w1)))
      else (None, w))"

text \<open>Lines 65 to 70, the CSP header. The result comes back with its hash set as
  \<open>getCspString\<close> left it.\<close>

definition cspHeader :: "csp_options \<Rightarrow> string" where
  "cspHeader csp =
     (if reportOnly csp then ''Content-Security-Policy-Report-Only''
      else ''Content-Security-Policy'')"

definition cspStep :: "env \<Rightarrow> result \<Rightarrow> world \<Rightarrow> exn option \<times> result \<times> world" where
  "cspStep en r w =
     (case render_csp (opts en) of
        None \<Rightarrow> (None, r, w)
      | Some csp \<Rightarrow>
          (let (v, hashSet') = getCspString (cspScriptSrcHashSet r) (allowedSources csp)
                                 (policies csp) (dev (opts en));
               r' = r\<lparr>cspScriptSrcHashSet := hashSet'\<rparr>
           in case v of
                Inl e \<Rightarrow> (Some e, r', w)
              | Inr s \<Rightarrow> (None, r', emit (SetHeader (cspHeader csp) (HString s)) w)))"

text \<open>Lines 73 to 78. The HTML is a string of UTF-8 bytes, so \<open>Buffer.byteLength\<close>
  is its length. \<open>res.end\<close> sends the status line before the body: the response
  of Node throws a \<open>RangeError\<close> when \<open>res.statusCode\<close> is not within 100 to 999
  (line 29 stores whatever truthy \<open>statusCode\<close> the error has, and a collaborator
  may have set any), and then nothing is written and line 77 is not reached. The
  \<open>res.end()\<close> of line 37 follows \<open>res.statusCode = 304\<close> and never throws.\<close>

definition sendResponse :: "string \<Rightarrow> result \<Rightarrow> world \<Rightarrow> (exn + ret) \<times> world" where
  "sendResponse u r w =
     (let w1 = emit (SetHeader ''Content-Length'' (HNumber (length (html r))))
                 (emit (SetHeader ''Accept-Ranges'' (HString ''none''))
                   (emit (SetHeader ''Content-Type'' (HString ''text/html; charset=utf-8'')) w))
      in if 100 \<le> res_statusCode w1 \<and> res_statusCode w1 \<le> 999
         then (Inr (Html (html r)),
               emit (CallHook ''render:routeDone'' u r) (emit (End (Some (html r))) w1))
         else (Inl (RangeError ''Invalid status code''), w1))"

text \<open>Lines 14 and 15: the render and the awaited \<open>render:route\<close> hook.\<close>

definition nuxtMiddleware_render :: "env \<Rightarrow> string \<Rightarrow> world \<Rightarrow> (exn + result) \<times> world" where
  "nuxtMiddleware_render en u w =
     (case renderRoute en u w of
        (Inl e, w1) \<Rightarrow> (Inl e, w1)
      | (Inr r, w1) \<Rightarrow> awaitHook en ''render:route'' u r (emit (CallHook ''render:route'' u r) w1))"

text \<open>Lines 16 to 78: what the handler does with the render result.\<close>

definition nuxtMiddleware_respond ::
  "env \<Rightarrow> request \<Rightarrow> string \<Rightarrow> result \<Rightarrow> world \<Rightarrow> (exn + ret) \<times> world"
  where
  "nuxtMiddleware_respond en req u r w =
     (if redirected r then (Inr (Html (html r)), emit (CallHook ''render:routeDone'' u r) w)
      else
        (case errorStatus r w of
           Inl e \<Rightarrow> (Inl e, w)
         | Inr w1 \<Rightarrow>
             (case etagStep en req u r w1 of
                (Some v, w2) \<Rightarrow> (Inr v, w2)
              | (None, w2) \<Rightarrow>
                  (case pushStep en req r w2 of
                     (Some e, w3) \<Rightarrow> (Inl e, w3)
                   | (None, w3) \<Rightarrow>
                       (case cspStep en r w3 of
                          (Some e, r', w4) \<Rightarrow> (Inl e, w4)
                        | (None, r', w4) \<Rightarrow> sendResponse u r' w4)))))"

text \<open>The body of \<open>try\<close>.\<close>

definition nuxtMiddleware_try :: "env \<Rightarrow> request \<Rightarrow> string \<Rightarrow> world \<Rightarrow> (exn + ret) \<times> world" where
  "nuxtMiddleware_try en req u w =
     (case nuxtMiddleware_render en u w of
        (Inl e, w1) \<Rightarrow> (Inl e, w1)
      | (Inr r, w1) \<Rightarrow> nuxtMiddleware_respond en req u r w1)"

text \<open>The handler. \<open>decodeURI\<close> runs before \<open>try\<close>: its exception rejects the
  promise (\<open>Inl\<close>). An exception of the \<open>try\<close> body is caught: it is logged and
  returned when the context says the render redirected, and handed to \<open>next\<close>
  otherwise, after which the handler returns \<open>undefined\<close>.\<close>

definition nuxtMiddleware :: "env \<Rightarrow> request \<Rightarrow> world \<Rightarrow> (exn + ret) \<times> world" where
  "nuxtMiddleware en req w =
     (case decodeURI en (url req) of
        Inl e \<Rightarrow> (Inl e, w)
      | Inr u \<Rightarrow>
          (case nuxtMiddleware_try en req u (w\<lparr>res_statusCode := 200\<rparr>) of
             (Inr v, w') \<Rightarrow> (Inr v, w')
           | (Inl err, w') \<Rightarrow>
               if context_redirected w' then (Inr (Err err), emit (ConsolaError err) w')
               else (Inr Undefined, emit (Next err) w')))"

subsection \<open>Reading a trace\<close>

text \<open>The names of the headers set, the values given to one header, and the
  arguments of the \<open>res.end\<close> calls, each in call order; and the calls made
  between two states.\<close>

fun headerNames :: "event list \<Rightarrow> string list" where
  "headerNames [] = []"
| "headerNames (SetHeader n v # evs) = n # headerNames evs"
| "headerNames (ev # evs) = headerNames evs"

fun headerValues :: "string \<Rightarrow> event list \<Rightarrow> header_value list" where
  "headerValues name [] = []"
| "headerValues name (SetHeader n v # evs) =
     (if n = name then v # headerValues name evs else headerValues name evs)"
| "headerValues name (ev # evs) = headerValues name evs"

fun endCalls :: "event list \<Rightarrow> string option list" where
  "endCalls [] = []"
| "endCalls (End b # evs) = b # endCalls evs"
| "endCalls (ev # evs) = endCalls evs"

definition eventsSince :: "world \<Rightarrow> world \<Rightarrow> event list" where
  "eventsSince w w' = drop (length (trace w)) (trace w')"

subsection \<open>A small site, for concrete runs\<close>

definition sha256_abc :: string where
  "sha256_abc = CHR 0x27 # ''sha256-abc'' @ [CHR 0x27]"

definition none_src :: string where
  "none_src = CHR 0x27 # ''none'' @ [CHR 0x27]"

definition assets :: "preload list" where
  "assets =
     [\<lparr>file = ''app.js'', asType = ''script'', fileWithoutQuery = ''app.js'', modern = False\<rparr>,
      \<lparr>file = ''app.css'', asType = ''style'', fileWithoutQuery = ''app.css'', modern = False\<rparr>,
      \<lparr>file = ''a.woff2'', asType = ''font'', fileWithoutQuery = ''a.woff2'', modern = False\<rparr>]"

definition preloads :: "unit \<Rightarrow> exn + preload list" where
  "preloads x = Inr assets"

definition page :: result where
  "page = \<lparr>html = ''<html></html>'', cspScriptSrcHashSet = [sha256_abc], error = None,
            redirected = False, getPreloadFiles = preloads\<rparr>"

definition moved :: result where
  "moved = page\<lparr>redirected := True\<rparr>"

definition failed :: "int option \<Rightarrow> result" where
  "failed code = page\<lparr>error := Some \<lparr>error_statusCode = code\<rparr>\<rparr>"

definition site :: options where
  "site = \<lparr>dev = False, render_etag = Some \<lparr>weak = False\<rparr>, http2_push = True,
            http2_shouldPush = None, http2_pushAssets = None,
            render_csp = Some \<lparr>allowedSources = None, policies = None, reportOnly = False\<rparr>,
            build_crossorigin = None\<rparr>"

text \<open>A renderer that resolves to \<open>r\<close> and leaves \<open>ctx\<close> in \<open>context.nuxt\<close>;
  the usual one, whose result carries the error of the context; and one that throws.\<close>

definition renders_as ::
  "nuxt_error option option \<Rightarrow> result \<Rightarrow> string \<Rightarrow> world \<Rightarrow> (exn + result) \<times> world" where
  "renders_as ctx r u w = (Inr r, w\<lparr>context_nuxt := ctx, context_redirected := redirected r\<rparr>)"

definition renders :: "result \<Rightarrow> string \<Rightarrow> world \<Rightarrow> (exn + result) \<times> world" where
  "renders r = renders_as (Some (error r)) r"

definition throws :: "exn \<Rightarrow> bool \<Rightarrow> string \<Rightarrow> world \<Rightarrow> (exn + result) \<times> world" where
  "throws e red u w = (Inl e, w\<lparr>context_redirected := red\<rparr>)"

text \<open>A renderer that also leaves the status code \<open>s\<close> on the response; a
  listener of \<open>render:route\<close> that sets the \<open>error\<close> of the result it is
  handed; a \<open>pushAssets\<close> function that pushes nothing and sets the status code;
  a \<open>getPreloadFiles\<close> that throws; and a \<open>csp\<close> option whose \<open>policies\<close>
  give \<open>default-src\<close> a string where an array is expected.\<close>

definition leaves :: "int \<Rightarrow> result \<Rightarrow> string \<Rightarrow> world \<Rightarrow> (exn + result) \<times> world" where
  "leaves s r u w =
     (Inr r, w\<lparr>res_statusCode := s, context_nuxt := Some (error r),
               context_redirected := redirected r\<rparr>)"

definition setsError ::
  "nuxt_error \<Rightarrow> string \<Rightarrow> string \<Rightarrow> result \<Rightarrow> world \<Rightarrow> (exn + result) \<times> world" where
  "setsError e name u r w = (Inr (r\<lparr>error := Some e\<rparr>), w)"

definition pushes ::
  "int \<Rightarrow> request \<Rightarrow> string \<Rightarrow> preload list \<Rightarrow> world \<Rightarrow> (exn + string list) \<times> world" where
  "pushes s req pp pf w = (Inr [], w\<lparr>res_statusCode := s\<rparr>)"

definition noPreloads :: "unit \<Rightarrow> exn + preload list" where
  "noPreloads x = Inl (Error ''no client manifest'')"

definition stringPolicy :: csp_options where
  "stringPolicy =
     \<lparr>allowedSources = None, policies = Some [(''default-src'', PolicyOther)],
      reportOnly = False\<rparr>"

definition noHook :: "string \<Rightarrow> string \<Rightarrow> result \<Rightarrow> world \<Rightarrow> (exn + result) \<times> world" where
  "noHook name u r w = (Inr r, w)"

definition tagOf :: "string \<Rightarrow> etag_options \<Rightarrow> string" where
  "tagOf h eo = ''tag-'' @ h"

definition ifNoneMatch :: "(string \<times> string) list \<Rightarrow> string \<Rightarrow> bool" where
  "ifNoneMatch hs etag = (map_of hs ''if-none-match'' = Some etag)"

definition server :: "options \<Rightarrow> (string \<Rightarrow> world \<Rightarrow> (exn + result) \<times> world) \<Rightarrow> env" where
  "server os render =
     \<lparr>opts = os, renderRoute = render, awaitHook = noHook, publicPath = ''/_nuxt/'',
      decodeURI = Inr, generateETag = tagOf, fresh = ifNoneMatch\<rparr>"

definition start :: world where
  "start = \<lparr>res_statusCode = 200, context_nuxt = None, context_redirected = False, trace = []\<rparr>"

definition GET :: "string \<Rightarrow> (string \<times> string) list \<Rightarrow> request" where
  "GET u hs = \<lparr>url = u, headers = hs\<rparr>"

text \<open>The state the example renderer leaves behind, after the \<open>render:route\<close>
  hook was dispatched.\<close>

definition rendered :: "nuxt_error option option \<Rightarrow> string \<Rightarrow> result \<Rightarrow> world" where
  "rendered ctx u r =
     \<lparr>res_statusCode = 200, context_nuxt = ctx, context_redirected = redirected r,
      trace = [CallHook ''render:route'' u r]\<rparr>"

section \<open>Auxiliary facts\<close>

lemmas example_defs = sha256_abc_def none_src_def assets_def preloads_def page_def moved_def
  failed_def site_def renders_as_def renders_def throws_def noHook_def tagOf_def ifNoneMatch_def
  server_def start_def GET_def rendered_def leaves_def setsError_def pushes_def noPreloads_def
  stringPolicy_def

lemmas handler_defs = nuxtMiddleware_def nuxtMiddleware_try_def nuxtMiddleware_render_def
  nuxtMiddleware_respond_def errorStatus_def etagStep_def pushStep_def cspStep_def cspHeader_def
  sendResponse_def emit_def getCspString_def baseCspStr_def defaultPushAssets_def pushEach_def
  pushLink_def transformPolicyObject_def Set_add_def new_Set_def self_src_def unsafe_eval_src_def
  eventsSince_def Let_def

subsection \<open>Sets as insertion-ordered lists\<close>

lemma set_Set_add: "set (Set_add s x) = insert x (set s)"
  by (auto simp: Set_add_def)

lemma prefix_Set_add: "prefix s (Set_add s x)"
  by (auto simp: Set_add_def)

lemma set_fold_Set_add: "set (fold (\<lambda>x s. Set_add s x) xs s) = set s \<union> set xs"
  by (induction xs arbitrary: s) (auto simp: set_Set_add)

lemma prefix_fold_Set_add: "prefix s (fold (\<lambda>x s. Set_add s x) xs s)"
proof (induction xs arbitrary: s)
  case Nil
  show ?case by simp
next
  case (Cons x xs)
  have "prefix s (Set_add s x)" by (rule prefix_Set_add)
  also have "prefix (Set_add s x) (fold (\<lambda>x s. Set_add s x) xs (Set_add s x))"
    by (rule Cons.IH)
  finally show ?case by simp
qed

lemma set_new_Set: "set (new_Set xs) = set xs"
  by (simp add: new_Set_def set_fold_Set_add)

subsection \<open>Traces\<close>

lemma headerNames_append: "headerNames (xs @ ys) = headerNames xs @ headerNames ys"
  by (induction xs rule: headerNames.induct) simp_all

lemma endCalls_append: "endCalls (xs @ ys) = endCalls xs @ endCalls ys"
  by (induction xs rule: endCalls.induct) simp_all

lemma headerValues_append:
  "headerValues name (xs @ ys) = headerValues name xs @ headerValues name ys"
  by (induction name xs rule: headerValues.induct) simp_all

lemma headerValues_names: "name \<notin> set (headerNames evs) \<Longrightarrow> headerValues name evs = []"
  by (induction name evs rule: headerValues.induct) auto

lemma eventsSince_extended [simp]:
  "eventsSince w (w\<lparr>res_statusCode := s, trace := trace w @ evs\<rparr>) = evs"
  "eventsSince w (w\<lparr>trace := trace w @ evs\<rparr>) = evs"
  by (simp_all add: eventsSince_def)

lemma cspHeader_names:
  "cspHeader csp \<noteq> ''Link''" "cspHeader csp \<noteq> ''ETag''"
  "cspHeader csp \<noteq> ''Content-Type''" "cspHeader csp \<noteq> ''Accept-Ranges''"
  "cspHeader csp \<noteq> ''Content-Length''"
  by (simp_all add: cspHeader_def)

subsection \<open>The steps of the handler\<close>

lemma nuxtMiddleware_rendered:
  assumes "decodeURI en (url req) = Inr u"
      and "nuxtMiddleware_render en u (w\<lparr>res_statusCode := 200\<rparr>) = (Inr r, w1)"
  shows "nuxtMiddleware en req w =
           (case nuxtMiddleware_respond en req u r w1 of
              (Inr v, w') \<Rightarrow> (Inr v, w')
            | (Inl err, w') \<Rightarrow>
                if context_redirected w' then (Inr (Err err), emit (ConsolaError err) w')
                else (Inr Undefined, emit (Next err) w'))"
  using assms by (simp add: nuxtMiddleware_def nuxtMiddleware_try_def)

lemma respond_redirected:
  "redirected r \<Longrightarrow>
     nuxtMiddleware_respond en req u r w =
       (Inr (Html (html r)), emit (CallHook ''render:routeDone'' u r) w)"
  by (simp add: nuxtMiddleware_respond_def)

lemma respond_fresh:
  assumes "\<not> redirected r" "error r = None" "render_etag (opts en) = Some eo"
      and "fresh en (headers req) (generateETag en (html r) eo)"
  shows "nuxtMiddleware_respond en req u r w =
           (Inr Undefined,
            w\<lparr>res_statusCode := 304,
              trace := trace w @ [End None, CallHook ''render:routeDone'' u r]\<rparr>)"
  using assms
  by (simp add: nuxtMiddleware_respond_def errorStatus_def etagStep_def emit_def)

lemma sendResponse_status: "res_statusCode (snd (sendResponse u r w)) = res_statusCode w"
  by (simp add: sendResponse_def emit_def Let_def)

lemma sendResponse_value: "fst (sendResponse u r w) = Inr v \<Longrightarrow> v = Html (html r)"
  by (auto simp: sendResponse_def Let_def split: if_splits)

lemma sendResponse_sent:
  assumes "100 \<le> res_statusCode w" "res_statusCode w \<le> 999"
  shows "sendResponse u r w =
           (Inr (Html (html r)),
            w\<lparr>trace := trace w @
               [SetHeader ''Content-Type'' (HString ''text/html; charset=utf-8''),
                SetHeader ''Accept-Ranges'' (HString ''none''),
                SetHeader ''Content-Length'' (HNumber (length (html r))),
                End (Some (html r)),
                CallHook ''render:routeDone'' u r]\<rparr>)"
  using assms by (simp add: sendResponse_def emit_def Let_def)

lemma sendResponse_refused:
  assumes "\<not> (100 \<le> res_statusCode w \<and> res_statusCode w \<le> 999)"
  shows "sendResponse u r w =
           (Inl (RangeError ''Invalid status code''),
            w\<lparr>trace := trace w @
               [SetHeader ''Content-Type'' (HString ''text/html; charset=utf-8''),
                SetHeader ''Accept-Ranges'' (HString ''none''),
                SetHeader ''Content-Length'' (HNumber (length (html r)))]\<rparr>)"
  using assms by (simp add: sendResponse_def emit_def Let_def)

lemma sendResponse_events:
  "\<exists>evs. snd (sendResponse u r w) = w\<lparr>trace := trace w @ evs\<rparr> \<and>
         headerNames evs = [''Content-Type'', ''Accept-Ranges'', ''Content-Length'']"
proof (cases "100 \<le> res_statusCode w \<and> res_statusCode w \<le> 999")
  case True
  then show ?thesis
    by (intro exI [of _ "[SetHeader ''Content-Type'' (HString ''text/html; charset=utf-8''),
                SetHeader ''Accept-Ranges'' (HString ''none''),
                SetHeader ''Content-Length'' (HNumber (length (html r))),
                End (Some (html r)),
                CallHook ''render:routeDone'' u r]"]) (simp add: sendResponse_sent)
next
  case False
  then show ?thesis
    by (intro exI [of _ "[SetHeader ''Content-Type'' (HString ''text/html; charset=utf-8''),
                SetHeader ''Accept-Ranges'' (HString ''none''),
                SetHeader ''Content-Length'' (HNumber (length (html r)))]"])
       (simp add: sendResponse_refused)
qed

lemma respond_error:
  assumes "\<not> redirected r" "error r = Some e" "context_nuxt w = Some (Some ce)"
  shows "nuxtMiddleware_respond en req u r w =
           (case cspStep en r (w\<lparr>res_statusCode := js_or (error_statusCode ce) 500\<rparr>) of
              (Some ex, r', w4) \<Rightarrow> (Inl ex, w4)
            | (None, r', w4) \<Rightarrow> sendResponse u r' w4)"
  using assms
  by (simp add: nuxtMiddleware_respond_def errorStatus_def etagStep_def pushStep_def
        split: option.splits prod.splits)

lemma cspStep_html: "cspStep en r w = (x, r', w') \<Longrightarrow> html r' = html r"
  by (auto simp: cspStep_def Let_def split: option.splits prod.splits sum.splits)

lemma cspStep_status: "cspStep en r w = (x, r', w') \<Longrightarrow> res_statusCode w' = res_statusCode w"
  by (auto simp: cspStep_def Let_def emit_def split: option.splits prod.splits sum.splits)

lemma cspStep_trace:
  "cspStep en r w = (x, r', w') \<Longrightarrow>
     w' = w\<lparr>trace := trace w @
            (case render_csp (opts en) of
               None \<Rightarrow> []
             | Some csp \<Rightarrow>
                 (case fst (getCspString (cspScriptSrcHashSet r) (allowedSources csp)
                              (policies csp) (dev (opts en))) of
                    Inl ex \<Rightarrow> []
                  | Inr s \<Rightarrow> [SetHeader (cspHeader csp) (HString s)]))\<rparr>"
  by (auto simp: cspStep_def Let_def emit_def split: option.splits prod.splits sum.splits)

lemma cspStep_throws:
  "cspStep en r w = (x, r', w') \<Longrightarrow>
     x = (case render_csp (opts en) of
            None \<Rightarrow> None
          | Some csp \<Rightarrow>
              (case fst (getCspString (cspScriptSrcHashSet r) (allowedSources csp)
                           (policies csp) (dev (opts en))) of
                 Inl ex \<Rightarrow> Some ex
               | Inr s \<Rightarrow> None))"
  by (auto simp: cspStep_def Let_def emit_def split: option.splits prod.splits sum.splits)

lemma errorStatus_Inr:
  "errorStatus r w = Inr w1 \<Longrightarrow>
     trace w1 = trace w \<and> context_nuxt w1 = context_nuxt w \<and>
     context_redirected w1 = context_redirected w \<and>
     res_statusCode w1 =
       (case error r of
          None \<Rightarrow> res_statusCode w
        | Some e \<Rightarrow> (case context_nuxt w of
                       Some (Some ce) \<Rightarrow> js_or (error_statusCode ce) 500
                     | _ \<Rightarrow> res_statusCode w))"
  by (auto simp: errorStatus_def split: option.splits)

lemma etagStep_status:
  "etagStep en req u r w = (x, w') \<Longrightarrow>
     res_statusCode w' = res_statusCode w \<or> (res_statusCode w' = 304 \<and> error r = None)"
  by (auto simp: etagStep_def Let_def emit_def split: option.splits if_splits)

lemma respond_value:
  assumes "fst (nuxtMiddleware_respond en req u r w) = Inr v"
  shows "v = (if \<not> redirected r \<and> error r = None \<and>
                 (case render_etag (opts en) of
                    None \<Rightarrow> False
                  | Some eo \<Rightarrow> fresh en (headers req) (generateETag en (html r) eo))
              then Undefined else Html (html r))"
proof (cases "redirected r")
  case True
  with assms show ?thesis by (auto simp: respond_redirected)
next
  case False
  from assms False obtain w1 where w1: "errorStatus r w = Inr w1"
    by (auto simp: nuxtMiddleware_respond_def split: sum.splits)
  obtain x2 w2 where e: "etagStep en req u r w1 = (x2, w2)"
    by (cases "etagStep en req u r w1") auto
  obtain x3 w3 where p: "pushStep en req r w2 = (x3, w3)"
    by (cases "pushStep en req r w2") auto
  obtain x4 r4 w4 where c: "cspStep en r w3 = (x4, r4, w4)"
    by (cases "cspStep en r w3") auto
  have x2: "x2 = (if error r = None \<and>
                 (case render_etag (opts en) of
                    None \<Rightarrow> False
                  | Some eo \<Rightarrow> fresh en (headers req) (generateETag en (html r) eo))
              then Some Undefined else None)"
    using e by (auto simp: etagStep_def Let_def split: option.splits if_splits)
  show ?thesis
    using assms False w1 e p c x2 cspStep_html [OF c] sendResponse_value [of u r4 w4 v]
    by (auto simp: nuxtMiddleware_respond_def split: option.splits if_splits)
qed

lemma respond_error_csp:
  assumes "\<not> redirected r" "error r \<noteq> None" "context_nuxt w = Some (Some ce)"
  shows "nuxtMiddleware_respond en req u r w =
           (case render_csp (opts en) of
              None \<Rightarrow> sendResponse u r (w\<lparr>res_statusCode := js_or (error_statusCode ce) 500\<rparr>)
            | Some csp \<Rightarrow>
                (case getCspString (cspScriptSrcHashSet r) (allowedSources csp) (policies csp)
                        (dev (opts en)) of
                   (Inl ex, hs) \<Rightarrow> (Inl ex, w\<lparr>res_statusCode := js_or (error_statusCode ce) 500\<rparr>)
                 | (Inr s, hs) \<Rightarrow>
                     sendResponse u (r\<lparr>cspScriptSrcHashSet := hs\<rparr>)
                       (w\<lparr>res_statusCode := js_or (error_statusCode ce) 500,
                          trace := trace w @ [SetHeader (cspHeader csp) (HString s)]\<rparr>)))"
proof -
  from assms(2) obtain e where e: "error r = Some e" by auto
  show ?thesis
    unfolding respond_error [OF assms(1) e assms(3)]
    by (simp add: cspStep_def emit_def Let_def split: option.splits prod.splits sum.splits)
qed

lemma error_respond_events:
  assumes "\<not> redirected r" "error r \<noteq> None"
      and "nuxtMiddleware_respond en req u r w = (x, w')"
  shows "\<exists>evs. trace w' = trace w @ evs \<and>
           ''ETag'' \<notin> set (headerNames evs) \<and> ''Link'' \<notin> set (headerNames evs)"
proof (cases "errorStatus r w")
  case (Inl e)
  with assms have "trace w' = trace w @ []" by (auto simp: nuxtMiddleware_respond_def)
  then show ?thesis by (intro exI [of _ "[]"]) simp
next
  case (Inr w1)
  then obtain ce where ce: "context_nuxt w = Some (Some ce)"
    using assms(2) by (auto simp: errorStatus_def split: option.splits)
  let ?W = "w\<lparr>res_statusCode := js_or (error_statusCode ce) 500\<rparr>"
  note r = respond_error_csp [OF assms(1,2) ce, of en req u]
  show ?thesis
  proof (cases "render_csp (opts en)")
    case None
    from sendResponse_events [of u r ?W] obtain evs where
      "snd (sendResponse u r ?W) = ?W\<lparr>trace := trace ?W @ evs\<rparr>"
      "headerNames evs = [''Content-Type'', ''Accept-Ranges'', ''Content-Length'']" by blast
    with None r assms(3) have "trace w' = trace w @ evs \<and>
           ''ETag'' \<notin> set (headerNames evs) \<and> ''Link'' \<notin> set (headerNames evs)"
      by (cases "sendResponse u r ?W") auto
    then show ?thesis by blast
  next
    case (Some csp)
    obtain v hs where g: "getCspString (cspScriptSrcHashSet r) (allowedSources csp) (policies csp)
                        (dev (opts en)) = (v, hs)"
      by (cases "getCspString (cspScriptSrcHashSet r) (allowedSources csp) (policies csp)
                        (dev (opts en))") auto
    show ?thesis
    proof (cases v)
      case (Inl ex)
      with Some g r assms(3) have "trace w' = trace w @ []" by auto
      then show ?thesis by (intro exI [of _ "[]"]) simp
    next
      case (Inr s)
      let ?W' = "w\<lparr>res_statusCode := js_or (error_statusCode ce) 500,
                          trace := trace w @ [SetHeader (cspHeader csp) (HString s)]\<rparr>"
      from sendResponse_events [of u "r\<lparr>cspScriptSrcHashSet := hs\<rparr>" ?W'] obtain evs where
        e: "snd (sendResponse u (r\<lparr>cspScriptSrcHashSet := hs\<rparr>) ?W') =
              ?W'\<lparr>trace := trace ?W' @ evs\<rparr>"
        "headerNames evs = [''Content-Type'', ''Accept-Ranges'', ''Content-Length'']" by blast
      with Inr Some g r assms(3)
      have "trace w' = trace w @ (SetHeader (cspHeader csp) (HString s) # evs)"
        by (cases "sendResponse u (r\<lparr>cspScriptSrcHashSet := hs\<rparr>) ?W'") auto
      moreover have "''ETag'' \<notin> set (headerNames (SetHeader (cspHeader csp) (HString s) # evs))"
        "''Link'' \<notin> set (headerNames (SetHeader (cspHeader csp) (HString s) # evs))"
        using e(2) cspHeader_names [of csp] by auto
      ultimately show ?thesis by blast
    qed
  qed
qed

lemma caught_events:
  assumes "decodeURI en (url req) = Inr u"
      and "nuxtMiddleware_render en u (w\<lparr>res_statusCode := 200\<rparr>) = (Inr r, w1)"
      and "nuxtMiddleware_respond en req u r w1 = (x, w')"
      and "trace w' = trace w1 @ evs"
  shows "\<exists>tl. eventsSince w1 (snd (nuxtMiddleware en req w)) = evs @ tl \<and>
              headerNames tl = [] \<and> endCalls tl = [] \<and> (\<forall>n. headerValues n tl = []) \<and>
              (isl x \<or> tl = [])"
proof (cases x)
  case (Inr v)
  with assms show ?thesis
    by (intro exI [of _ "[]"]) (simp add: nuxtMiddleware_rendered eventsSince_def)
next
  case (Inl err)
  show ?thesis
  proof (cases "context_redirected w'")
    case True
    with Inl assms show ?thesis
      by (intro exI [of _ "[ConsolaError err]"])
         (simp add: nuxtMiddleware_rendered eventsSince_def emit_def)
  next
    case False
    with Inl assms show ?thesis
      by (intro exI [of _ "[Next err]"])
         (simp add: nuxtMiddleware_rendered eventsSince_def emit_def)
  qed
qed

lemma pushStep_status_kept:
  assumes "\<forall>pa pf w2. http2_pushAssets (opts en) = Some pa \<longrightarrow>
             res_statusCode (snd (pa req (publicPath en) pf w2)) = res_statusCode w2"
      and "pushStep en req r w = (x, w')"
  shows "res_statusCode w' = res_statusCode w"
proof (cases "error r = None \<and> http2_push (opts en)")
  case False
  with assms(2) show ?thesis by (auto simp: pushStep_def)
next
  case True
  show ?thesis
  proof (cases "getPreloadFiles r ()")
    case (Inl e)
    with True assms(2) show ?thesis by (auto simp: pushStep_def)
  next
    case (Inr pf)
    show ?thesis
    proof (cases "http2_pushAssets (opts en)")
      case None
      with True Inr assms(2) show ?thesis
        by (auto simp: pushStep_def defaultPushAssets_def Let_def emit_def split: if_splits)
    next
      case (Some pa)
      obtain y w2 where y: "pa req (publicPath en) pf w = (y, w2)"
        by (cases "pa req (publicPath en) pf w") auto
      from assms(1) Some y have "res_statusCode w2 = res_statusCode w"
        by (metis snd_conv)
      with True Inr Some y assms(2) show ?thesis
        by (cases y) (auto simp: pushStep_def emit_def split: if_splits)
    qed
  qed
qed

lemma respond_status_kept:
  assumes "\<forall>pa pf w2. http2_pushAssets (opts en) = Some pa \<longrightarrow>
             res_statusCode (snd (pa req (publicPath en) pf w2)) = res_statusCode w2"
      and "nuxtMiddleware_respond en req u r w = (x, w')"
  shows "res_statusCode w' = res_statusCode w \<or> res_statusCode w' = 304 \<or>
         (case context_nuxt w of
            Some (Some ce) \<Rightarrow>
              \<not> redirected r \<and> error r \<noteq> None \<and>
              res_statusCode w' = js_or (error_statusCode ce) 500
          | _ \<Rightarrow> False)"
proof (cases "redirected r")
  case True
  with assms(2) show ?thesis by (auto simp: respond_redirected emit_def)
next
  case False
  show ?thesis
  proof (cases "errorStatus r w")
    case (Inl e)
    with False assms(2) show ?thesis by (auto simp: nuxtMiddleware_respond_def)
  next
    case (Inr w1)
    note s1 = errorStatus_Inr [OF Inr]
    obtain x2 w2 where e: "etagStep en req u r w1 = (x2, w2)"
      by (cases "etagStep en req u r w1") auto
    note s2 = etagStep_status [OF e]
    obtain x3 w3 where p: "pushStep en req r w2 = (x3, w3)"
      by (cases "pushStep en req r w2") auto
    note s3 = pushStep_status_kept [OF assms(1) p]
    obtain x4 r4 w4 where c: "cspStep en r w3 = (x4, r4, w4)"
      by (cases "cspStep en r w3") auto
    note s4 = cspStep_status [OF c]
    have "res_statusCode w' = res_statusCode w2"
      using assms(2) False Inr e p c s3 s4 sendResponse_status [of u r4 w4]
      by (auto simp: nuxtMiddleware_respond_def split: option.splits)
    with s1 s2 False show ?thesis by (auto split: option.splits)
  qed
qed

lemma respond_error_status:
  assumes "\<not> redirected r" "error r \<noteq> None"
  shows "res_statusCode (snd (nuxtMiddleware_respond en req u r w)) =
           (case context_nuxt w of
              Some (Some ce) \<Rightarrow> js_or (error_statusCode ce) 500
            | _ \<Rightarrow> res_statusCode w)"
proof (cases "errorStatus r w")
  case (Inl e)
  then have "\<forall>ce. context_nuxt w \<noteq> Some (Some ce)"
    using assms(2) by (auto simp: errorStatus_def split: option.splits)
  with Inl assms(1) show ?thesis
    by (auto simp: nuxtMiddleware_respond_def split: option.splits)
next
  case (Inr w1)
  then obtain ce where ce: "context_nuxt w = Some (Some ce)"
    using assms(2) by (auto simp: errorStatus_def split: option.splits)
  from assms(2) obtain e where e: "error r = Some e" by auto
  let ?W = "w\<lparr>res_statusCode := js_or (error_statusCode ce) 500\<rparr>"
  obtain x r' w4 where c: "cspStep en r ?W = (x, r', w4)" by (cases "cspStep en r ?W") auto
  have "res_statusCode w4 = js_or (error_statusCode ce) 500"
    using cspStep_status [OF c] by simp
  then have "res_statusCode (snd (nuxtMiddleware_respond en req u r w)) =
               js_or (error_statusCode ce) 500"
    using c sendResponse_status [of u r' w4]
    by (cases x) (simp_all add: respond_error [OF assms(1) e ce])
  with ce show ?thesis by simp
qed

lemma nuxtMiddleware_status:
  assumes "decodeURI en (url req) = Inr u"
      and "nuxtMiddleware_render en u (w\<lparr>res_statusCode := 200\<rparr>) = (Inr r, w1)"
  shows "res_statusCode (snd (nuxtMiddleware en req w)) =
           res_statusCode (snd (nuxtMiddleware_respond en req u r w1))"
proof -
  obtain x w' where x: "nuxtMiddleware_respond en req u r w1 = (x, w')"
    by (cases "nuxtMiddleware_respond en req u r w1") auto
  then show ?thesis
    by (cases x) (simp_all add: nuxtMiddleware_rendered [OF assms] emit_def)
qed

subsection \<open>Where the body of \<open>try\<close> throws\<close>

text \<open>An exception of the body of \<open>try\<close> comes from one of seven calls:
  \<open>renderRoute\<close>, the awaited hook, the read of line 29, \<open>getPreloadFiles\<close>,
  \<open>pushAssets\<close>, \<open>getCspString\<close> and \<open>res.end\<close>.\<close>

lemma pushStep_throws:
  assumes "pushStep en req r w = (Some err, w')"
  shows "error r = None \<and> http2_push (opts en) \<and>
         (getPreloadFiles r () = Inl err \<and> w' = w \<or>
          (\<exists>pf pa. getPreloadFiles r () = Inr pf \<and> http2_pushAssets (opts en) = Some pa \<and>
                   pa req (publicPath en) pf w = (Inl err, w')))"
proof -
  from assms have g: "error r = None \<and> http2_push (opts en)"
    by (auto simp: pushStep_def split: if_splits)
  show ?thesis
  proof (cases "getPreloadFiles r ()")
    case (Inl e)
    with assms g show ?thesis by (auto simp: pushStep_def)
  next
    case (Inr pf)
    show ?thesis
    proof (cases "http2_pushAssets (opts en)")
      case None
      with assms g Inr show ?thesis
        by (auto simp: pushStep_def defaultPushAssets_def Let_def split: if_splits)
    next
      case (Some pa)
      obtain y w2 where y: "pa req (publicPath en) pf w = (y, w2)"
        by (cases "pa req (publicPath en) pf w") auto
      with assms g Inr Some show ?thesis
        by (cases y) (auto simp: pushStep_def split: if_splits)
    qed
  qed
qed

lemma cspStep_thrown:
  assumes "cspStep en r w = (Some err, r', w')"
  shows "w' = w \<and> (\<exists>csp. render_csp (opts en) = Some csp \<and>
           fst (getCspString (cspScriptSrcHashSet r) (allowedSources csp) (policies csp)
                  (dev (opts en))) = Inl err)"
  using assms
  by (auto simp: cspStep_def Let_def split: option.splits prod.splits sum.splits)

lemma try_throws_sources:
  assumes "nuxtMiddleware_try en req u w = (Inl err, w')"
  shows "renderRoute en u w = (Inl err, w') \<or>
         (\<exists>r0 w0. renderRoute en u w = (Inr r0, w0) \<and>
             awaitHook en ''render:route'' u r0 (emit (CallHook ''render:route'' u r0) w0) =
               (Inl err, w')) \<or>
         (\<exists>r w1. nuxtMiddleware_render en u w = (Inr r, w1) \<and> \<not> redirected r \<and>
             ((error r \<noteq> None \<and> context_nuxt w1 = None \<and>
                err = TypeError ''Cannot read property 'error' of undefined'' \<and> w' = w1) \<or>
              (error r \<noteq> None \<and> context_nuxt w1 = Some None \<and>
                err = TypeError ''Cannot read property 'statusCode' of null'' \<and> w' = w1) \<or>
              (error r = None \<and> etagStep en req u r w1 = (None, w') \<and> http2_push (opts en) \<and>
                getPreloadFiles r () = Inl err) \<or>
              (\<exists>w3 pf pa. error r = None \<and> etagStep en req u r w1 = (None, w3) \<and>
                http2_push (opts en) \<and>
                getPreloadFiles r () = Inr pf \<and> http2_pushAssets (opts en) = Some pa \<and>
                pa req (publicPath en) pf w3 = (Inl err, w')) \<or>
              (\<exists>w2 w3 csp. errorStatus r w1 = Inr w2 \<and> etagStep en req u r w2 = (None, w3) \<and>
                pushStep en req r w3 = (None, w') \<and> render_csp (opts en) = Some csp \<and>
                fst (getCspString (cspScriptSrcHashSet r) (allowedSources csp) (policies csp)
                       (dev (opts en))) = Inl err) \<or>
              (\<exists>w2 w3 w4 r' w5. errorStatus r w1 = Inr w2 \<and>
                etagStep en req u r w2 = (None, w3) \<and>
                pushStep en req r w3 = (None, w4) \<and> cspStep en r w4 = (None, r', w5) \<and>
                \<not> (100 \<le> res_statusCode w5 \<and> res_statusCode w5 \<le> 999) \<and>
                err = RangeError ''Invalid status code'' \<and>
                w' = w5\<lparr>trace := trace w5 @
                        [SetHeader ''Content-Type'' (HString ''text/html; charset=utf-8''),
                         SetHeader ''Accept-Ranges'' (HString ''none''),
                         SetHeader ''Content-Length'' (HNumber (length (html r')))]\<rparr>)))"
    (is "?A \<or> ?B \<or> ?C")
proof -
  obtain x w0 where rr: "renderRoute en u w = (x, w0)" by (cases "renderRoute en u w") auto
  show ?thesis
  proof (cases x)
    case (Inl e)
    with rr assms have ?A
      by (simp add: nuxtMiddleware_try_def nuxtMiddleware_render_def)
    then show ?thesis by (rule disjI1)
  next
    case (Inr r0)
    obtain y w1 where h: "awaitHook en ''render:route'' u r0
                            (emit (CallHook ''render:route'' u r0) w0) = (y, w1)"
      by (cases "awaitHook en ''render:route'' u r0 (emit (CallHook ''render:route'' u r0) w0)")
         auto
    show ?thesis
    proof (cases y)
      case (Inl e)
      with rr Inr h assms have "renderRoute en u w = (Inr r0, w0) \<and>
             awaitHook en ''render:route'' u r0 (emit (CallHook ''render:route'' u r0) w0) =
               (Inl err, w')"
        by (simp add: nuxtMiddleware_try_def nuxtMiddleware_render_def)
      then have ?B by (intro exI)
      then show ?thesis by (rule disjI1 [THEN disjI2])
    next
      case r: (Inr r)
      have rn: "nuxtMiddleware_render en u w = (Inr r, w1)"
        using rr Inr h r by (simp add: nuxtMiddleware_render_def)
      with assms have resp: "nuxtMiddleware_respond en req u r w1 = (Inl err, w')"
        by (simp add: nuxtMiddleware_try_def)
      then have nr: "\<not> redirected r" by (auto simp: nuxtMiddleware_respond_def split: if_splits)
      let ?D1 = "error r \<noteq> None \<and> context_nuxt w1 = None \<and>
                err = TypeError ''Cannot read property 'error' of undefined'' \<and> w' = w1"
      let ?D2 = "error r \<noteq> None \<and> context_nuxt w1 = Some None \<and>
                err = TypeError ''Cannot read property 'statusCode' of null'' \<and> w' = w1"
      let ?D3 = "error r = None \<and> etagStep en req u r w1 = (None, w') \<and> http2_push (opts en) \<and>
                getPreloadFiles r () = Inl err"
      let ?D4 = "\<exists>w3 pf pa. error r = None \<and> etagStep en req u r w1 = (None, w3) \<and>
                http2_push (opts en) \<and>
                getPreloadFiles r () = Inr pf \<and> http2_pushAssets (opts en) = Some pa \<and>
                pa req (publicPath en) pf w3 = (Inl err, w')"
      let ?D5 = "\<exists>w2 w3 csp. errorStatus r w1 = Inr w2 \<and> etagStep en req u r w2 = (None, w3) \<and>
                pushStep en req r w3 = (None, w') \<and> render_csp (opts en) = Some csp \<and>
                fst (getCspString (cspScriptSrcHashSet r) (allowedSources csp) (policies csp)
                       (dev (opts en))) = Inl err"
      let ?D6 = "\<exists>w2 w3 w4 r' w5. errorStatus r w1 = Inr w2 \<and>
                etagStep en req u r w2 = (None, w3) \<and>
                pushStep en req r w3 = (None, w4) \<and> cspStep en r w4 = (None, r', w5) \<and>
                \<not> (100 \<le> res_statusCode w5 \<and> res_statusCode w5 \<le> 999) \<and>
                err = RangeError ''Invalid status code'' \<and>
                w' = w5\<lparr>trace := trace w5 @
                        [SetHeader ''Content-Type'' (HString ''text/html; charset=utf-8''),
                         SetHeader ''Accept-Ranges'' (HString ''none''),
                         SetHeader ''Content-Length'' (HNumber (length (html r')))]\<rparr>"
      have inner: "?D1 \<or> ?D2 \<or> ?D3 \<or> ?D4 \<or> ?D5 \<or> ?D6"
      proof (cases "errorStatus r w1")
        case (Inl e)
        with resp nr have "err = e" "w' = w1" by (auto simp: nuxtMiddleware_respond_def)
        with Inl have "?D1 \<or> ?D2" by (auto simp: errorStatus_def split: option.splits)
        then show ?thesis by (elim disjE) simp_all
      next
        case w2: (Inr w2)
        obtain x2 w3 where e: "etagStep en req u r w2 = (x2, w3)"
          by (cases "etagStep en req u r w2") auto
        with resp nr w2 have x2: "x2 = None"
          by (cases x2) (auto simp: nuxtMiddleware_respond_def)
        note e = e [unfolded x2]
        obtain x3 w4 where p: "pushStep en req r w3 = (x3, w4)"
          by (cases "pushStep en req r w3") auto
        show ?thesis
        proof (cases x3)
          case (Some e3)
          with resp nr w2 e p have "err = e3" "w' = w4"
            by (auto simp: nuxtMiddleware_respond_def)
          with p Some have ps: "pushStep en req r w3 = (Some err, w')" by simp
          note t = pushStep_throws [OF ps]
          from t have en: "error r = None" and hp: "http2_push (opts en)" by simp_all
          with w2 have "w2 = w1" by (simp add: errorStatus_def)
          with e have e1: "etagStep en req u r w1 = (None, w3)" by simp
          from t consider "getPreloadFiles r () = Inl err" "w' = w3"
            | pf pa where "getPreloadFiles r () = Inr pf" "http2_pushAssets (opts en) = Some pa"
                "pa req (publicPath en) pf w3 = (Inl err, w')"
            by blast
          then show ?thesis
          proof cases
            case 1
            with en hp e1 have ?D3 by simp
            then show ?thesis by simp
          next
            case 2
            with en hp e1 have ?D4 by blast
            then show ?thesis by simp
          qed
        next
          case None
          note p = p [unfolded None]
          obtain x4 r' w5 where c: "cspStep en r w4 = (x4, r', w5)"
            by (cases "cspStep en r w4") auto
          show ?thesis
          proof (cases x4)
            case (Some e4)
            with resp nr w2 e p c have "err = e4" "w' = w5"
              by (auto simp: nuxtMiddleware_respond_def)
            with c Some have cs: "cspStep en r w4 = (Some err, r', w')" by simp
            from cspStep_thrown [OF cs] obtain csp where
              "w' = w4" "render_csp (opts en) = Some csp"
              "fst (getCspString (cspScriptSrcHashSet r) (allowedSources csp) (policies csp)
                  (dev (opts en))) = Inl err" by blast
            with w2 e p have ?D5 by blast
            then show ?thesis by simp
          next
            case n4: None
            note c = c [unfolded n4]
            with resp nr w2 e p have s: "sendResponse u r' w5 = (Inl err, w')"
              by (auto simp: nuxtMiddleware_respond_def)
            then have bad: "\<not> (100 \<le> res_statusCode w5 \<and> res_statusCode w5 \<le> 999)"
              by (auto simp: sendResponse_sent)
            from s sendResponse_refused [OF bad, of u r']
            have "err = RangeError ''Invalid status code''"
              "w' = w5\<lparr>trace := trace w5 @
                        [SetHeader ''Content-Type'' (HString ''text/html; charset=utf-8''),
                         SetHeader ''Accept-Ranges'' (HString ''none''),
                         SetHeader ''Content-Length'' (HNumber (length (html r')))]\<rparr>"
              by simp_all
            with w2 e p c bad have ?D6 by blast
            then show ?thesis by simp
          qed
        qed
      qed
      from rn nr inner have
        "nuxtMiddleware_render en u w = (Inr r, w1) \<and> \<not> redirected r \<and>
           (?D1 \<or> ?D2 \<or> ?D3 \<or> ?D4 \<or> ?D5 \<or> ?D6)"
        by (intro conjI)
      then have ?C by (intro exI)
      then show ?thesis by (rule disjI2 [THEN disjI2])
    qed
  qed
qed

subsection \<open>The push header\<close>

lemma fold_pushEach_None:
  "fold (pushEach None pp os) ps acc =
     acc @ map (pushLink pp os) (filter (\<lambda>p. asType p = ''script'' \<or> asType p = ''style'') ps)"
  by (induction ps arbitrary: acc) (auto simp: pushEach_def)

lemma defaultPushAssets_None:
  "defaultPushAssets pf None pp os w =
     (map (pushLink pp os) (filter (\<lambda>p. asType p = ''script'' \<or> asType p = ''style'') pf), w)"
  by (simp add: defaultPushAssets_def fold_pushEach_None)

lemma pushStep_default:
  assumes "error r = None" "http2_push (opts en)" "http2_pushAssets (opts en) = None"
      and "http2_shouldPush (opts en) = None" "getPreloadFiles r () = Inr pf"
  shows "pushStep en req r w =
           (None, w\<lparr>trace := trace w @
              (let links = map (pushLink (publicPath en) (opts en))
                             (filter (\<lambda>p. asType p = ''script'' \<or> asType p = ''style'') pf)
               in if links = [] then []
                  else [SetHeader ''Link'' (HString (join '', '' links))])\<rparr>)"
  using assms by (simp add: pushStep_def defaultPushAssets_None emit_def Let_def)

lemma etagStep_stale:
  assumes "case render_etag (opts en) of
             None \<Rightarrow> True
           | Some eo \<Rightarrow> \<not> fresh en (headers req) (generateETag en (html r) eo)"
  shows "\<exists>evs. etagStep en req u r w = (None, w\<lparr>trace := trace w @ evs\<rparr>) \<and>
               headerValues ''Link'' evs = []"
proof (cases "render_etag (opts en)")
  case None
  then have "etagStep en req u r w = (None, w\<lparr>trace := trace w @ []\<rparr>)"
    by (simp add: etagStep_def split: option.splits)
  then show ?thesis by (intro exI [of _ "[]"]) simp
next
  case (Some eo)
  show ?thesis
  proof (cases "error r = None")
    case True
    with Some assms have "etagStep en req u r w =
        (None, w\<lparr>trace := trace w @ [SetHeader ''ETag'' (HString (generateETag en (html r) eo))]\<rparr>)"
      by (simp add: etagStep_def emit_def)
    then show ?thesis
      by (intro exI [of _ "[SetHeader ''ETag'' (HString (generateETag en (html r) eo))]"]) simp
  next
    case False
    with Some have "etagStep en req u r w = (None, w\<lparr>trace := trace w @ []\<rparr>)"
      by (auto simp: etagStep_def)
    then show ?thesis by (intro exI [of _ "[]"]) simp
  qed
qed

lemma cspStep_Link:
  "\<exists>x r' evs. cspStep en r w = (x, r', w\<lparr>trace := trace w @ evs\<rparr>) \<and>
               headerValues ''Link'' evs = []"
proof -
  obtain x r' w' where c: "cspStep en r w = (x, r', w')" by (cases "cspStep en r w") auto
  let ?evs = "(case render_csp (opts en) of
               None \<Rightarrow> []
             | Some csp \<Rightarrow>
                 (case fst (getCspString (cspScriptSrcHashSet r) (allowedSources csp)
                              (policies csp) (dev (opts en))) of
                    Inl ex \<Rightarrow> []
                  | Inr s \<Rightarrow> [SetHeader (cspHeader csp) (HString s)]))"
  have "cspStep en r w = (x, r', w\<lparr>trace := trace w @ ?evs\<rparr>)"
    using cspStep_trace [OF c] c by simp
  moreover have "headerValues ''Link'' ?evs = []"
    by (simp add: cspHeader_names split: option.splits sum.splits)
  ultimately show ?thesis by blast
qed

lemma push_respond:
  assumes "\<not> redirected r" and "error r = None"
      and "case render_etag (opts en) of
             None \<Rightarrow> True
           | Some eo \<Rightarrow> \<not> fresh en (headers req) (generateETag en (html r) eo)"
      and "http2_push (opts en)" and "http2_pushAssets (opts en) = None"
      and "http2_shouldPush (opts en) = None" and "getPreloadFiles r () = Inr pf"
      and "nuxtMiddleware_respond en req u r w = (x, w')"
  shows "\<exists>evs. trace w' = trace w @ evs \<and>
           headerValues ''Link'' evs =
             (let links = map (pushLink (publicPath en) (opts en))
                            (filter (\<lambda>p. asType p = ''script'' \<or> asType p = ''style'') pf)
              in if links = [] then [] else [HString (join '', '' links)])"
proof -
  have s1: "errorStatus r w = Inr w" using assms(2) by (simp add: errorStatus_def)
  obtain e1 where s2: "etagStep en req u r w = (None, w\<lparr>trace := trace w @ e1\<rparr>)"
    and e1: "headerValues ''Link'' e1 = []"
    using etagStep_stale [OF assms(3)] by blast
  let ?w2 = "w\<lparr>trace := trace w @ e1\<rparr>"
  let ?e2 = "(let links = map (pushLink (publicPath en) (opts en))
                             (filter (\<lambda>p. asType p = ''script'' \<or> asType p = ''style'') pf)
               in if links = [] then []
                  else [SetHeader ''Link'' (HString (join '', '' links))])"
  have s3: "pushStep en req r ?w2 = (None, ?w2\<lparr>trace := trace ?w2 @ ?e2\<rparr>)"
    by (rule pushStep_default [OF assms(2,4,5,6,7)])
  let ?w3 = "?w2\<lparr>trace := trace ?w2 @ ?e2\<rparr>"
  obtain x4 r' e3 where s4: "cspStep en r ?w3 = (x4, r', ?w3\<lparr>trace := trace ?w3 @ e3\<rparr>)"
    and e3: "headerValues ''Link'' e3 = []"
    using cspStep_Link [of en r ?w3] by blast
  have "\<exists>e4. trace w' = trace w @ e1 @ ?e2 @ e3 @ e4 \<and> headerValues ''Link'' e4 = []"
  proof (cases x4)
    case None
    from sendResponse_events [of u r' "?w3\<lparr>trace := trace ?w3 @ e3\<rparr>"] obtain e4 where
      e4: "snd (sendResponse u r' (?w3\<lparr>trace := trace ?w3 @ e3\<rparr>)) =
             ?w3\<lparr>trace := trace ?w3 @ e3 @ e4\<rparr>"
      and n4: "headerNames e4 = [''Content-Type'', ''Accept-Ranges'', ''Content-Length'']"
      by auto
    have "headerValues ''Link'' e4 = []"
      using n4 by (simp add: headerValues_names)
    moreover have "trace w' = trace w @ e1 @ ?e2 @ e3 @ e4"
      using None assms(1,8) s1 s2 s3 s4 e4
      by (cases "sendResponse u r' (?w3\<lparr>trace := trace ?w3 @ e3\<rparr>)")
         (auto simp: nuxtMiddleware_respond_def)
    ultimately show ?thesis by blast
  next
    case (Some ex)
    with assms(1,8) s1 s2 s3 s4 have "trace w' = trace w @ e1 @ ?e2 @ e3 @ []"
      by (auto simp: nuxtMiddleware_respond_def)
    then show ?thesis by (intro exI [of _ "[]"]) simp
  qed
  then obtain e4 where t: "trace w' = trace w @ e1 @ ?e2 @ e3 @ e4"
    and e4: "headerValues ''Link'' e4 = []" by blast
  have "headerValues ''Link'' (e1 @ ?e2 @ e3 @ e4) =
          (let links = map (pushLink (publicPath en) (opts en))
                            (filter (\<lambda>p. asType p = ''script'' \<or> asType p = ''style'') pf)
              in if links = [] then [] else [HString (join '', '' links)])"
    by (simp add: headerValues_append e1 e3 e4 Let_def)
  with t show ?thesis by blast
qed

subsection \<open>Substrings of the CSP value\<close>

lemma sublist_around:
  assumes "sublist p (a @ c # b)" and "c \<notin> set p"
  shows "sublist p a \<or> sublist p b"
proof -
  from assms(1) consider "sublist p a" | "sublist p (c # b)"
    | xs1 xs2 where "p = xs1 @ xs2" "suffix xs1 a" "prefix xs2 (c # b)"
    by (auto simp: sublist_append)
  then show ?thesis
  proof cases
    case 1
    then show ?thesis by simp
  next
    case 2
    then have "prefix p (c # b) \<or> sublist p b" by (simp add: sublist_Cons_right)
    with assms(2) show ?thesis by (cases p) auto
  next
    case 3
    with assms(2) have "xs2 = []" by (cases xs2) auto
    with 3 show ?thesis by auto
  qed
qed

lemma sublist_join:
  assumes "sublist p (join [c] xs)" and "c \<notin> set p" and "p \<noteq> []"
  shows "\<exists>x\<in>set xs. sublist p x"
  using assms(1)
proof (induction "[c]" xs rule: join.induct)
  case 1
  with assms(3) show ?case by simp
next
  case (2 x)
  then show ?case by simp
next
  case (3 x y ys)
  then have "sublist p (x @ c # join [c] (y # ys))" by simp
  from sublist_around [OF this assms(2)] 3 show ?case by auto
qed

lemma unsafe_eval_no_space: "CHR '' '' \<notin> set unsafe_eval_src"
  by (simp add: unsafe_eval_src_def)

lemma csp_allowed_no_unsafe_eval:
  assumes "\<forall>h\<in>set hs. \<not> sublist unsafe_eval_src h"
  shows "\<not> sublist unsafe_eval_src
           (''script-src '' @ self_src @ '' '' @ join '' '' hs @ '' https://cdn.example.com'')"
proof
  assume "sublist unsafe_eval_src
           (''script-src '' @ self_src @ '' '' @ join '' '' hs @ '' https://cdn.example.com'')"
  then have "sublist unsafe_eval_src
           ((''script-src '' @ self_src) @ CHR '' '' #
              (join '' '' hs @ '' https://cdn.example.com''))"
    by simp
  from sublist_around [OF this unsafe_eval_no_space]
  have "sublist unsafe_eval_src (join '' '' hs @ CHR '' '' # ''https://cdn.example.com'')"
    by (auto simp: unsafe_eval_src_def self_src_def dest!: set_mono_sublist)
  from sublist_around [OF this unsafe_eval_no_space]
  have "sublist unsafe_eval_src (join '' '' hs)"
    by (auto simp: unsafe_eval_src_def dest!: set_mono_sublist)
  from sublist_join [OF _ unsafe_eval_no_space] this
  have "\<exists>h\<in>set hs. sublist unsafe_eval_src h" by (simp add: unsafe_eval_src_def)
  with assms show False by blast
qed

subsection \<open>The policy object\<close>

lemma transformPolicyObject_set:
  "snd (transformPolicyObject ps hs) =
     fold (\<lambda>src s. Set_add s src)
       (case map_of ps ''script-src'' of Some (PolicyArray srcs) \<Rightarrow> new_Set srcs | _ \<Rightarrow> [])
       (Set_add hs self_src)"
  by (simp add: transformPolicyObject_def Let_def split: option.splits policy_value.splits)

lemma getCspString_policies_snd:
  "snd (getCspString hs None (Some ps) isDev) = snd (transformPolicyObject ps hs)"
  by (simp add: getCspString_def split: prod.splits sum.splits)

lemma filter_update:
  "filter (\<lambda>kv. fst kv \<noteq> k) (AList.update k v ps) = filter (\<lambda>kv. fst kv \<noteq> k) ps"
  by (induction ps) auto

subsection \<open>The example site\<close>

lemma decode_example: "decodeURI (server os f) (url (GET u hs)) = Inr u"
  by (simp add: server_def GET_def)

lemma render_example:
  "nuxtMiddleware_render (server os (renders_as ctx r)) u (start\<lparr>res_statusCode := 200\<rparr>) =
     (Inr r, rendered ctx u r)"
  by (simp add: nuxtMiddleware_render_def server_def renders_as_def noHook_def start_def
        rendered_def emit_def)

section \<open>The claims\<close>

subsection \<open>C1: a result that carries an error\<close>

text \<open>
  C1, as stated, has the handler set none of the ETag, Link and CSP headers when the
  result carries an error, and still write the HTML body. Four runs on a page with
  an error:
  \<^item> the CSP block (lines 65 to 70) is not guarded by \<open>!error\<close>: on the example
    site, whose \<open>csp\<close> option is set, the page gets its \<open>Content-Security-Policy\<close>
    header;
  \<^item> when \<open>csp.policies\<close> gives a directive a string, \<open>v.join\<close> throws at line 130
    and no body is written;
  \<^item> when the error has the \<open>statusCode\<close> 42, line 29 stores it, \<open>res.end\<close>
    refuses it and no body is written;
  \<^item> when a listener of \<open>render:route\<close> (which line 15 hands the result) sets the
    \<open>error\<close> of a page rendered without one, \<open>context.nuxt.error\<close> is \<open>null\<close>,
    line 29 throws and no body is written.
\<close>

theorem error_result_sets_csp_counterexample:
  "error (failed (Some 404)) \<noteq> None \<and> \<not> redirected (failed (Some 404)) \<and>
   headerValues ''Content-Security-Policy''
     (trace (snd (nuxtMiddleware (server site (renders (failed (Some 404))))
                    (GET ''/missing'' []) start))) =
     [HString (''script-src 'self' '' @ sha256_abc)] \<and>
   endCalls (trace (snd (nuxtMiddleware
       (server (site\<lparr>render_csp := Some stringPolicy\<rparr>) (renders (failed (Some 404))))
       (GET ''/missing'' []) start))) = [] \<and>
   error (failed (Some 42)) \<noteq> None \<and> \<not> redirected (failed (Some 42)) \<and>
   endCalls (trace (snd (nuxtMiddleware (server site (renders (failed (Some 42))))
                    (GET ''/missing'' []) start))) = [] \<and>
   fst (nuxtMiddleware_render ((server site (renders page))
          \<lparr>awaitHook := setsError \<lparr>error_statusCode = Some 404\<rparr>\<rparr>) ''/missing''
          (start\<lparr>res_statusCode := 200\<rparr>)) = Inr (failed (Some 404)) \<and>
   endCalls (trace (snd (nuxtMiddleware ((server site (renders page))
          \<lparr>awaitHook := setsError \<lparr>error_statusCode = Some 404\<rparr>\<rparr>)
          (GET ''/missing'' []) start))) = []"
  by (simp add: example_defs handler_defs)

text \<open>
  C1, amended. For every render result whose \<open>error\<close> is present and whose
  \<open>redirected\<close> is false, the handler sets neither the ETag nor the Link header.
  The CSP header is not suppressed: when \<open>context.nuxt.error\<close> is an object, the
  \<open>csp\<close> option is set and the CSP value is built without an exception, the handler
  sets the CSP header, once, to that value. When \<open>context.nuxt.error\<close> is an object,
  the CSP value (if the \<open>csp\<close> option is set) is built without an exception and the
  status code that line 29 stores lies within 100 to 999, the handler still writes the
  body normally: after the CSP header it sets Content-Type, Accept-Ranges and
  Content-Length, ends the response once with the HTML as body, and returns the HTML.
\<close>

theorem error_result_headers:
  assumes "decodeURI en (url req) = Inr u"
      and "nuxtMiddleware_render en u (w\<lparr>res_statusCode := 200\<rparr>) = (Inr r, w1)"
      and "\<not> redirected r" and "error r \<noteq> None"
  shows "let evs = eventsSince w1 (snd (nuxtMiddleware en req w)) in
           ''ETag'' \<notin> set (headerNames evs) \<and> ''Link'' \<notin> set (headerNames evs) \<and>
           (context_nuxt w1 = Some (Some ce) \<and> render_csp (opts en) = Some csp \<and>
            fst (getCspString (cspScriptSrcHashSet r) (allowedSources csp) (policies csp)
                   (dev (opts en))) = Inr s \<longrightarrow>
              headerValues (cspHeader csp) evs = [HString s]) \<and>
           (context_nuxt w1 = Some (Some ce) \<and>
            (\<forall>c. render_csp (opts en) = Some c \<longrightarrow>
               \<not> isl (fst (getCspString (cspScriptSrcHashSet r) (allowedSources c) (policies c)
                             (dev (opts en))))) \<and>
            100 \<le> js_or (error_statusCode ce) 500 \<and> js_or (error_statusCode ce) 500 \<le> 999 \<longrightarrow>
              fst (nuxtMiddleware en req w) = Inr (Html (html r)) \<and>
              headerNames evs =
                (case render_csp (opts en) of None \<Rightarrow> [] | Some c \<Rightarrow> [cspHeader c]) @
                [''Content-Type'', ''Accept-Ranges'', ''Content-Length''] \<and>
              endCalls evs = [Some (html r)])"
proof -
  obtain x w' where x: "nuxtMiddleware_respond en req u r w1 = (x, w')"
    by (cases "nuxtMiddleware_respond en req u r w1") auto
  let ?evs = "eventsSince w1 (snd (nuxtMiddleware en req w))"
  have 1: "''ETag'' \<notin> set (headerNames ?evs) \<and> ''Link'' \<notin> set (headerNames ?evs)"
  proof -
    from error_respond_events [OF assms(3,4) x] obtain e1 where
      e1: "trace w' = trace w1 @ e1" "''ETag'' \<notin> set (headerNames e1)"
          "''Link'' \<notin> set (headerNames e1)" by blast
    from caught_events [OF assms(1,2) x e1(1)] obtain tl where
      "?evs = e1 @ tl" "headerNames tl = []" by blast
    with e1 show ?thesis by (simp add: headerNames_append)
  qed
  have 2: "headerValues (cspHeader csp) ?evs = [HString s]"
    if h: "context_nuxt w1 = Some (Some ce)" "render_csp (opts en) = Some csp"
      "fst (getCspString (cspScriptSrcHashSet r) (allowedSources csp) (policies csp)
                   (dev (opts en))) = Inr s"
  proof -
    obtain hs where g: "getCspString (cspScriptSrcHashSet r) (allowedSources csp) (policies csp)
                   (dev (opts en)) = (Inr s, hs)"
      using h(3) by (cases "getCspString (cspScriptSrcHashSet r) (allowedSources csp)
                   (policies csp) (dev (opts en))") auto
    let ?W = "w1\<lparr>res_statusCode := js_or (error_statusCode ce) 500,
                          trace := trace w1 @ [SetHeader (cspHeader csp) (HString s)]\<rparr>"
    from sendResponse_events [of u "r\<lparr>cspScriptSrcHashSet := hs\<rparr>" ?W] obtain e2 where
      e2: "snd (sendResponse u (r\<lparr>cspScriptSrcHashSet := hs\<rparr>) ?W) =
              ?W\<lparr>trace := trace ?W @ e2\<rparr>"
        "headerNames e2 = [''Content-Type'', ''Accept-Ranges'', ''Content-Length'']" by blast
    have t: "trace w' = trace w1 @ (SetHeader (cspHeader csp) (HString s) # e2)"
      using x e2(1) respond_error_csp [OF assms(3,4) h(1), of en req u] h(2) g
      by (cases "sendResponse u (r\<lparr>cspScriptSrcHashSet := hs\<rparr>) ?W") auto
    have v: "headerValues (cspHeader csp) e2 = []"
      using e2(2) cspHeader_names [of csp] by (intro headerValues_names) auto
    from caught_events [OF assms(1,2) x t] obtain tl where
      "?evs = (SetHeader (cspHeader csp) (HString s) # e2) @ tl"
      "\<forall>n. headerValues n tl = []" by blast
    with v show ?thesis by (simp add: headerValues_append)
  qed
  have 3: "fst (nuxtMiddleware en req w) = Inr (Html (html r)) \<and>
           headerNames ?evs =
                (case render_csp (opts en) of None \<Rightarrow> [] | Some c \<Rightarrow> [cspHeader c]) @
                [''Content-Type'', ''Accept-Ranges'', ''Content-Length''] \<and>
           endCalls ?evs = [Some (html r)]"
    if h: "context_nuxt w1 = Some (Some ce)"
      "\<forall>c. render_csp (opts en) = Some c \<longrightarrow>
               \<not> isl (fst (getCspString (cspScriptSrcHashSet r) (allowedSources c) (policies c)
                             (dev (opts en))))"
      "100 \<le> js_or (error_statusCode ce) 500" "js_or (error_statusCode ce) 500 \<le> 999"
  proof (cases "render_csp (opts en)")
    case None
    let ?W = "w1\<lparr>res_statusCode := js_or (error_statusCode ce) 500\<rparr>"
    have "nuxtMiddleware_respond en req u r w1 = sendResponse u r ?W"
      using respond_error_csp [OF assms(3,4) h(1), of en req u] None by simp
    also have "\<dots> = (Inr (Html (html r)),
            ?W\<lparr>trace := trace ?W @
               [SetHeader ''Content-Type'' (HString ''text/html; charset=utf-8''),
                SetHeader ''Accept-Ranges'' (HString ''none''),
                SetHeader ''Content-Length'' (HNumber (length (html r))),
                End (Some (html r)),
                CallHook ''render:routeDone'' u r]\<rparr>)"
      using h(3,4) by (intro sendResponse_sent) simp_all
    finally show ?thesis
      using None by (simp add: nuxtMiddleware_rendered [OF assms(1,2)])
  next
    case (Some c)
    obtain v hs where g: "getCspString (cspScriptSrcHashSet r) (allowedSources c) (policies c)
                   (dev (opts en)) = (v, hs)"
      by (cases "getCspString (cspScriptSrcHashSet r) (allowedSources c)
                   (policies c) (dev (opts en))") auto
    with h(2) Some obtain s' where v: "v = Inr s'" by (cases v) auto
    let ?r = "r\<lparr>cspScriptSrcHashSet := hs\<rparr>"
    let ?W = "w1\<lparr>res_statusCode := js_or (error_statusCode ce) 500,
                          trace := trace w1 @ [SetHeader (cspHeader c) (HString s')]\<rparr>"
    have "nuxtMiddleware_respond en req u r w1 = sendResponse u ?r ?W"
      using respond_error_csp [OF assms(3,4) h(1), of en req u] Some g v by simp
    also have "\<dots> = (Inr (Html (html ?r)),
            ?W\<lparr>trace := trace ?W @
               [SetHeader ''Content-Type'' (HString ''text/html; charset=utf-8''),
                SetHeader ''Accept-Ranges'' (HString ''none''),
                SetHeader ''Content-Length'' (HNumber (length (html ?r))),
                End (Some (html ?r)),
                CallHook ''render:routeDone'' u ?r]\<rparr>)"
      using h(3,4) by (intro sendResponse_sent) simp_all
    finally show ?thesis
      using Some by (simp add: nuxtMiddleware_rendered [OF assms(1,2)] eventsSince_def)
  qed
  show ?thesis
    unfolding Let_def using 1 2 3 by blast
qed

text \<open>The example site on a page with a 404 error.\<close>

theorem error_result_headers_witness:
  "\<not> redirected (failed (Some 404)) \<and> error (failed (Some 404)) \<noteq> None \<and>
   ''ETag'' \<notin> set (headerNames (eventsSince
       (rendered (Some (error (failed (Some 404)))) ''/missing'' (failed (Some 404)))
       (snd (nuxtMiddleware (server site (renders (failed (Some 404))))
               (GET ''/missing'' []) start)))) \<and>
   ''Link'' \<notin> set (headerNames (eventsSince
       (rendered (Some (error (failed (Some 404)))) ''/missing'' (failed (Some 404)))
       (snd (nuxtMiddleware (server site (renders (failed (Some 404))))
               (GET ''/missing'' []) start)))) \<and>
   headerValues ''Content-Security-Policy'' (eventsSince
       (rendered (Some (error (failed (Some 404)))) ''/missing'' (failed (Some 404)))
       (snd (nuxtMiddleware (server site (renders (failed (Some 404))))
               (GET ''/missing'' []) start))) =
     [HString (''script-src 'self' '' @ sha256_abc)] \<and>
   fst (nuxtMiddleware (server site (renders (failed (Some 404)))) (GET ''/missing'' []) start) =
     Inr (Html ''<html></html>'') \<and>
   headerNames (eventsSince
       (rendered (Some (error (failed (Some 404)))) ''/missing'' (failed (Some 404)))
       (snd (nuxtMiddleware (server site (renders (failed (Some 404))))
               (GET ''/missing'' []) start))) =
     [''Content-Security-Policy'', ''Content-Type'', ''Accept-Ranges'', ''Content-Length''] \<and>
   endCalls (eventsSince
       (rendered (Some (error (failed (Some 404)))) ''/missing'' (failed (Some 404)))
       (snd (nuxtMiddleware (server site (renders (failed (Some 404))))
               (GET ''/missing'' []) start))) =
     [Some ''<html></html>'']"
proof -
  let ?r = "failed (Some 404)"
  let ?en = "server site (renders ?r)"
  let ?req = "GET ''/missing'' []"
  let ?csp = "\<lparr>allowedSources = None, policies = None, reportOnly = False\<rparr>"
  have d: "decodeURI ?en (url ?req) = Inr ''/missing''" by (rule decode_example)
  have r: "nuxtMiddleware_render ?en ''/missing'' (start\<lparr>res_statusCode := 200\<rparr>) =
             (Inr ?r, rendered (Some (error ?r)) ''/missing'' ?r)"
    unfolding renders_def by (rule render_example)
  have n: "\<not> redirected ?r" and e: "error ?r \<noteq> None" by (simp_all add: failed_def page_def)
  have c: "context_nuxt (rendered (Some (error ?r)) ''/missing'' ?r) =
             Some (Some \<lparr>error_statusCode = Some 404\<rparr>)"
    by (simp add: rendered_def failed_def)
  have o: "render_csp (opts ?en) = Some ?csp" by (simp add: server_def site_def)
  have g: "getCspString (cspScriptSrcHashSet ?r) (allowedSources ?csp) (policies ?csp)
             (dev (opts ?en)) = (Inr (''script-src 'self' '' @ sha256_abc), [sha256_abc])"
    by (simp add: server_def site_def failed_def page_def getCspString_def baseCspStr_def
          self_src_def sha256_abc_def)
  have h: "cspHeader ?csp = ''Content-Security-Policy''" by (simp add: cspHeader_def)
  from error_result_headers [OF d r n e, of "\<lparr>error_statusCode = Some 404\<rparr>" ?csp
         "''script-src 'self' '' @ sha256_abc"] n e c o g h
  show ?thesis
    by (simp add: Let_def failed_def page_def)
qed

subsection \<open>C2: the status code of an error\<close>

text \<open>
  C2, as stated, sets the status to the \<open>statusCode\<close> of the result's error, and to
  500 when that is absent, so that the status is always 200, 304 or that code. Line
  29 reads \<open>context.nuxt.error.statusCode || 500\<close>. Five runs of the example site:
  \<^item> a listener of \<open>render:route\<close> replaces the \<open>error\<close> of the result, 403 in
    the context, by one that says 404: the status is 403, the code of the context;
  \<^item> an error whose \<open>statusCode\<close> is 0 is answered with 500;
  \<^item> a listener sets the \<open>error\<close> of a page rendered without one, so that
    \<open>context.nuxt.error\<close> is \<open>null\<close>: line 29 throws and the status stays 200;
  \<^item> a renderer that leaves the status 201 on a page without error: the status
    stays 201;
  \<^item> a \<open>pushAssets\<close> function that sets the status to 202: the status stays 202.
\<close>

theorem error_status_counterexample:
  "fst (nuxtMiddleware_render ((server site (renders (failed (Some 403))))
          \<lparr>awaitHook := setsError \<lparr>error_statusCode = Some 404\<rparr>\<rparr>) ''/missing''
          (start\<lparr>res_statusCode := 200\<rparr>)) = Inr (failed (Some 404)) \<and>
   error (failed (Some 404)) = Some \<lparr>error_statusCode = Some 404\<rparr> \<and>
   \<not> redirected (failed (Some 404)) \<and>
   res_statusCode (snd (nuxtMiddleware ((server site (renders (failed (Some 403))))
          \<lparr>awaitHook := setsError \<lparr>error_statusCode = Some 404\<rparr>\<rparr>)
          (GET ''/missing'' []) start)) = 403 \<and>
   error (failed (Some 0)) = Some \<lparr>error_statusCode = Some 0\<rparr> \<and>
   \<not> redirected (failed (Some 0)) \<and>
   res_statusCode (snd (nuxtMiddleware (server site (renders (failed (Some 0))))
       (GET ''/missing'' []) start)) = 500 \<and>
   fst (nuxtMiddleware_render ((server site (renders page))
          \<lparr>awaitHook := setsError \<lparr>error_statusCode = Some 404\<rparr>\<rparr>) ''/missing''
          (start\<lparr>res_statusCode := 200\<rparr>)) = Inr (failed (Some 404)) \<and>
   res_statusCode (snd (nuxtMiddleware ((server site (renders page))
          \<lparr>awaitHook := setsError \<lparr>error_statusCode = Some 404\<rparr>\<rparr>)
          (GET ''/missing'' []) start)) = 200 \<and>
   error page = None \<and>
   res_statusCode (snd (nuxtMiddleware (server site (leaves 201 page)) (GET ''/'' []) start)) =
     201 \<and>
   res_statusCode (snd (nuxtMiddleware
       (server (site\<lparr>http2_pushAssets := Some (pushes 202)\<rparr>) (renders page))
       (GET ''/'' []) start)) = 202"
  by (simp add: example_defs handler_defs)

text \<open>
  C2, amended. For every render result whose \<open>error\<close> is present and whose
  \<open>redirected\<close> is false, the response status is set to the \<open>statusCode\<close> of
  \<open>context.nuxt.error\<close>, and to 500 when that \<open>statusCode\<close> is absent or 0; when
  \<open>context.nuxt\<close> or \<open>context.nuxt.error\<close> is missing, the status stays as the render
  left it. Hence, for every render result, when the renderer and the \<open>render:route\<close>
  hook leave the status at 200 and a configured \<open>pushAssets\<close> function does not
  change the status, the response status is always one of 200, 304, or the
  \<open>statusCode\<close> of \<open>context.nuxt.error\<close> defaulting to 500.
\<close>

theorem error_status_from_context:
  assumes "decodeURI en (url req) = Inr u"
      and "nuxtMiddleware_render en u (w\<lparr>res_statusCode := 200\<rparr>) = (Inr r, w1)"
  shows "(\<not> redirected r \<and> error r \<noteq> None \<longrightarrow>
            res_statusCode (snd (nuxtMiddleware en req w)) =
              (case context_nuxt w1 of
                 Some (Some ce) \<Rightarrow> js_or (error_statusCode ce) 500
               | _ \<Rightarrow> res_statusCode w1)) \<and>
         (res_statusCode w1 = 200 \<and>
          (\<forall>pa pf w2. http2_pushAssets (opts en) = Some pa \<longrightarrow>
             res_statusCode (snd (pa req (publicPath en) pf w2)) = res_statusCode w2) \<longrightarrow>
            res_statusCode (snd (nuxtMiddleware en req w)) = 200 \<or>
            res_statusCode (snd (nuxtMiddleware en req w)) = 304 \<or>
            (case context_nuxt w1 of
               Some (Some ce) \<Rightarrow>
                 \<not> redirected r \<and> error r \<noteq> None \<and>
                 res_statusCode (snd (nuxtMiddleware en req w)) = js_or (error_statusCode ce) 500
             | _ \<Rightarrow> False))"
proof (intro conjI impI)
  assume "\<not> redirected r \<and> error r \<noteq> None"
  then show "res_statusCode (snd (nuxtMiddleware en req w)) =
              (case context_nuxt w1 of
                 Some (Some ce) \<Rightarrow> js_or (error_statusCode ce) 500
               | _ \<Rightarrow> res_statusCode w1)"
    by (simp add: nuxtMiddleware_status [OF assms] respond_error_status)
next
  assume a: "res_statusCode w1 = 200 \<and>
          (\<forall>pa pf w2. http2_pushAssets (opts en) = Some pa \<longrightarrow>
             res_statusCode (snd (pa req (publicPath en) pf w2)) = res_statusCode w2)"
  obtain x w' where x: "nuxtMiddleware_respond en req u r w1 = (x, w')"
    by (cases "nuxtMiddleware_respond en req u r w1") auto
  from a have k: "\<forall>pa pf w2. http2_pushAssets (opts en) = Some pa \<longrightarrow>
             res_statusCode (snd (pa req (publicPath en) pf w2)) = res_statusCode w2" by simp
  from respond_status_kept [OF k x] a x
  show "res_statusCode (snd (nuxtMiddleware en req w)) = 200 \<or>
            res_statusCode (snd (nuxtMiddleware en req w)) = 304 \<or>
            (case context_nuxt w1 of
               Some (Some ce) \<Rightarrow>
                 \<not> redirected r \<and> error r \<noteq> None \<and>
                 res_statusCode (snd (nuxtMiddleware en req w)) = js_or (error_statusCode ce) 500
             | _ \<Rightarrow> False)"
    by (simp add: nuxtMiddleware_status [OF assms] split: option.splits)
qed

text \<open>The example site on an error without a \<open>statusCode\<close>, and on a 404 error.\<close>

theorem error_status_from_context_witness:
  "\<not> redirected (failed None) \<and> error (failed None) \<noteq> None \<and>
   res_statusCode (rendered (Some (error (failed None))) ''/broken'' (failed None)) = 200 \<and>
   http2_pushAssets (opts (server site (renders (failed None)))) = None \<and>
   res_statusCode (snd (nuxtMiddleware (server site (renders (failed None)))
      (GET ''/broken'' []) start)) = 500 \<and>
   \<not> redirected (failed (Some 404)) \<and> error (failed (Some 404)) \<noteq> None \<and>
   res_statusCode (snd (nuxtMiddleware (server site (renders (failed (Some 404))))
      (GET ''/missing'' []) start)) = 404"
proof -
  let ?r = "failed None"
  let ?en = "server site (renders ?r)"
  have d: "decodeURI ?en (url (GET ''/broken'' [])) = Inr ''/broken''" by (rule decode_example)
  have r: "nuxtMiddleware_render ?en ''/broken'' (start\<lparr>res_statusCode := 200\<rparr>) =
             (Inr ?r, rendered (Some (error ?r)) ''/broken'' ?r)"
    unfolding renders_def by (rule render_example)
  have n: "\<not> redirected ?r" "error ?r \<noteq> None" by (simp_all add: failed_def page_def)
  have c: "context_nuxt (rendered (Some (error ?r)) ''/broken'' ?r) =
             Some (Some \<lparr>error_statusCode = None\<rparr>)"
    "res_statusCode (rendered (Some (error ?r)) ''/broken'' ?r) = 200"
    by (simp_all add: rendered_def failed_def)
  have p: "http2_pushAssets (opts ?en) = None" by (simp add: server_def site_def)
  let ?r' = "failed (Some 404)"
  let ?en' = "server site (renders ?r')"
  have d': "decodeURI ?en' (url (GET ''/missing'' [])) = Inr ''/missing''" by (rule decode_example)
  have r': "nuxtMiddleware_render ?en' ''/missing'' (start\<lparr>res_statusCode := 200\<rparr>) =
             (Inr ?r', rendered (Some (error ?r')) ''/missing'' ?r')"
    unfolding renders_def by (rule render_example)
  have n': "\<not> redirected ?r'" "error ?r' \<noteq> None" by (simp_all add: failed_def page_def)
  have c': "context_nuxt (rendered (Some (error ?r')) ''/missing'' ?r') =
             Some (Some \<lparr>error_statusCode = Some 404\<rparr>)"
    by (simp add: rendered_def failed_def)
  from error_status_from_context [OF d r] error_status_from_context [OF d' r']
       n c p n' c'
  show ?thesis by simp
qed

subsection \<open>C3: a policy object\<close>

text \<open>
  C3. With \<open>policies = { "default-src": ["'none'"] }\<close>, \<open>allowedSources\<close> not an
  array and the hash set \<open>{'sha256-abc'}\<close>, the CSP value is the two directives
  \<open>default-src 'none'\<close> and \<open>script-src 'sha256-abc' 'self'\<close> joined by \<open>; \<close>, in
  dev mode or not.
\<close>

theorem csp_policies_example:
  "getCspString [sha256_abc] None (Some [(''default-src'', PolicyArray [none_src])]) isDev =
     (Inr (join ''; '' [''default-src '' @ none_src,
                        ''script-src '' @ join '' '' [sha256_abc, self_src]]),
      [sha256_abc, self_src]) \<and>
   join ''; '' [''default-src '' @ none_src,
               ''script-src '' @ join '' '' [sha256_abc, self_src]] =
     ''default-src 'none'; script-src 'sha256-abc' 'self'' @ [CHR 0x27]"
  by (simp add: getCspString_def transformPolicyObject_def Set_add_def self_src_def
        sha256_abc_def none_src_def Let_def)

subsection \<open>C4: a fresh ETag\<close>

text \<open>
  C4, as stated, answers 304 whenever there is no error, the \<open>etag\<close> option is set
  and the conditional headers of the request match the tag of the HTML. The redirect
  test (lines 24 to 27) comes first: for a redirected result under exactly these
  conditions the handler returns the HTML, leaves the status at 200 and does not end
  the response.
\<close>

theorem fresh_etag_304_counterexample:
  "error moved = None \<and>
   render_etag (opts (server site (renders moved))) = Some \<lparr>weak = False\<rparr> \<and>
   fresh (server site (renders moved))
     (headers (GET ''/old'' [(''if-none-match'', ''tag-<html></html>'')]))
     (generateETag (server site (renders moved)) (html moved) \<lparr>weak = False\<rparr>) \<and>
   fst (nuxtMiddleware (server site (renders moved))
          (GET ''/old'' [(''if-none-match'', ''tag-<html></html>'')]) start) =
     Inr (Html ''<html></html>'') \<and>
   res_statusCode (snd (nuxtMiddleware (server site (renders moved))
          (GET ''/old'' [(''if-none-match'', ''tag-<html></html>'')]) start)) = 200 \<and>
   endCalls (trace (snd (nuxtMiddleware (server site (renders moved))
          (GET ''/old'' [(''if-none-match'', ''tag-<html></html>'')]) start))) = []"
  by (simp add: example_defs handler_defs)

text \<open>
  C4, amended. Whenever the result is not redirected, carries no error, the \<open>etag\<close>
  option is set and the conditional headers of the request match the tag computed from
  the HTML, the handler sets the status to 304, ends the response without a body,
  dispatches \<open>render:routeDone\<close> and returns \<open>undefined\<close>; it makes no other call,
  so it sets no header at all.
\<close>

theorem fresh_etag_304:
  assumes "decodeURI en (url req) = Inr u"
      and "nuxtMiddleware_render en u (w\<lparr>res_statusCode := 200\<rparr>) = (Inr r, w1)"
      and "\<not> redirected r" and "error r = None"
      and "render_etag (opts en) = Some eo"
      and "fresh en (headers req) (generateETag en (html r) eo)"
  shows "nuxtMiddleware en req w =
           (Inr Undefined,
            w1\<lparr>res_statusCode := 304,
               trace := trace w1 @ [End None, CallHook ''render:routeDone'' u r]\<rparr>)"
  using assms
  by (simp add: nuxtMiddleware_rendered respond_fresh)

text \<open>The example site on a request whose \<open>if-none-match\<close> is the tag of the page.\<close>

theorem fresh_etag_304_witness:
  "\<not> redirected page \<and> error page = None \<and>
   nuxtMiddleware (server site (renders page))
       (GET ''/'' [(''if-none-match'', ''tag-<html></html>'')]) start =
     (Inr Undefined,
      \<lparr>res_statusCode = 304, context_nuxt = Some None, context_redirected = False,
       trace = [CallHook ''render:route'' ''/'' page, End None,
                CallHook ''render:routeDone'' ''/'' page]\<rparr>)"
proof -
  let ?en = "server site (renders page)"
  let ?req = "GET ''/'' [(''if-none-match'', ''tag-<html></html>'')]"
  have d: "decodeURI ?en (url ?req) = Inr ''/''" by (rule decode_example)
  have r: "nuxtMiddleware_render ?en ''/'' (start\<lparr>res_statusCode := 200\<rparr>) =
             (Inr page, rendered (Some (error page)) ''/'' page)"
    unfolding renders_def by (rule render_example)
  have n: "\<not> redirected page" and e: "error page = None" by (simp_all add: page_def)
  have o: "render_etag (opts ?en) = Some \<lparr>weak = False\<rparr>" by (simp add: server_def site_def)
  have f: "fresh ?en (headers ?req) (generateETag ?en (html page) \<lparr>weak = False\<rparr>)"
    by (simp add: server_def GET_def ifNoneMatch_def tagOf_def page_def)
  from fresh_etag_304 [OF d r n e o f] n e show ?thesis
    by (simp add: rendered_def page_def)
qed

subsection \<open>C5: a redirected result\<close>

text \<open>
  C5. For every render result with \<open>redirected\<close> true, the handler returns
  \<open>result.html\<close>; after the render it makes exactly one call, the dispatch of the
  completion hook \<open>render:routeDone\<close>: it sets no header (so none of ETag, Link or
  the CSP headers), and it leaves the status code as the render left it, whether or
  not the result carries an error.
\<close>

theorem redirected_returns_html:
  assumes "decodeURI en (url req) = Inr u"
      and "nuxtMiddleware_render en u (w\<lparr>res_statusCode := 200\<rparr>) = (Inr r, w1)"
      and "redirected r"
  shows "nuxtMiddleware en req w =
           (Inr (Html (html r)),
            w1\<lparr>trace := trace w1 @ [CallHook ''render:routeDone'' u r]\<rparr>)"
  using assms
  by (simp add: nuxtMiddleware_rendered respond_redirected emit_def)

text \<open>The example site, rendering a redirected page.\<close>

theorem redirected_returns_html_witness:
  "redirected moved \<and>
   nuxtMiddleware (server site (renders moved)) (GET ''/old'' []) start =
     (Inr (Html ''<html></html>''),
      \<lparr>res_statusCode = 200, context_nuxt = Some None, context_redirected = True,
       trace = [CallHook ''render:route'' ''/old'' moved,
                CallHook ''render:routeDone'' ''/old'' moved]\<rparr>)"
proof -
  have d: "decodeURI (server site (renders moved)) (url (GET ''/old'' [])) = Inr ''/old''"
    by (rule decode_example)
  have r: "nuxtMiddleware_render (server site (renders moved)) ''/old''
             (start\<lparr>res_statusCode := 200\<rparr>) = (Inr moved, rendered (Some (error moved)) ''/old'' moved)"
    unfolding renders_def by (rule render_example)
  have m: "redirected moved" by (simp add: moved_def)
  from redirected_returns_html [OF d r m] m show ?thesis
    by (simp add: rendered_def moved_def page_def)
qed

subsection \<open>C6: allowed sources\<close>

text \<open>
  C6. With \<open>allowedSources = ["https://cdn.example.com"]\<close> and \<open>dev\<close> false, the
  CSP value is \<open>script-src 'self'\<close>, the members of the hash set and
  \<open>https://cdn.example.com\<close>, separated by single spaces, whatever \<open>policies\<close> is;
  and \<open>'unsafe-eval'\<close> occurs nowhere in it, unless a member of the hash set itself
  contains it (a hash does not).
\<close>

theorem csp_allowedSources:
  "getCspString hs (Some [''https://cdn.example.com'']) pols False =
     (Inr (''script-src '' @ self_src @ '' '' @ join '' '' hs @ '' https://cdn.example.com''), hs) \<and>
   ((\<forall>h\<in>set hs. \<not> sublist unsafe_eval_src h) \<longrightarrow>
      \<not> sublist unsafe_eval_src
          (''script-src '' @ self_src @ '' '' @ join '' '' hs @ '' https://cdn.example.com''))"
  using csp_allowed_no_unsafe_eval [of hs]
  by (simp add: getCspString_def baseCspStr_def)

text \<open>The hash set \<open>{'sha256-abc'}\<close>.\<close>

theorem csp_allowedSources_witness:
  "\<not> sublist unsafe_eval_src sha256_abc \<and>
   getCspString [sha256_abc] (Some [''https://cdn.example.com'']) None False =
     (Inr ''script-src 'self' 'sha256-abc' https://cdn.example.com'', [sha256_abc]) \<and>
   \<not> sublist unsafe_eval_src ''script-src 'self' 'sha256-abc' https://cdn.example.com''"
proof -
  have h: "\<forall>h\<in>set [sha256_abc]. \<not> sublist unsafe_eval_src h"
    by (simp add: sha256_abc_def unsafe_eval_src_def sublist_Cons_right)
  from csp_allowedSources [of "[sha256_abc]" None] h show ?thesis
    by (simp add: self_src_def sha256_abc_def)
qed

subsection \<open>C7: the default push policy\<close>

text \<open>
  C7. With \<open>shouldPush\<close> unset, \<open>defaultPushAssets\<close> returns one link for each
  preload entry whose \<open>asType\<close> is \<open>script\<close> or \<open>style\<close>, in order, and none for
  any other entry (a \<open>font\<close>, say); the link is \<open><publicPath+file>; rel=\<close>, then
  \<open>modulepreload\<close> for a modern entry and \<open>preload\<close> otherwise, \<open>;\<close>, then
  \<open> crossorigin=value;\<close> when \<open>build.crossorigin\<close> is set, then \<open> as=asType\<close>.
  When the handler reaches the push step with no \<open>pushAssets\<close> function (a result
  that is not redirected and has no error, no fresh ETag, \<open>http2.push\<close> set), it sets
  the Link header once, to these links joined by \<open>, \<close>, and not at all when there
  are none.
\<close>

theorem default_push_links:
  "let links = map (\<lambda>p. ''<'' @ publicPath en @ file p @ ''>; rel='' @
                         (if modern p then ''modulepreload'' else ''preload'') @ '';'' @
                         (case build_crossorigin (opts en) of
                            None \<Rightarrow> []
                          | Some c \<Rightarrow> if c = [] then [] else '' crossorigin='' @ c @ '';'') @
                         '' as='' @ asType p)
                 (filter (\<lambda>p. asType p = ''script'' \<or> asType p = ''style'') pf)
   in defaultPushAssets pf None (publicPath en) (opts en) w0 = (links, w0) \<and>
      (decodeURI en (url req) = Inr u \<and>
       nuxtMiddleware_render en u (w\<lparr>res_statusCode := 200\<rparr>) = (Inr r, w1) \<and>
       \<not> redirected r \<and> error r = None \<and>
       (case render_etag (opts en) of
          None \<Rightarrow> True
        | Some eo \<Rightarrow> \<not> fresh en (headers req) (generateETag en (html r) eo)) \<and>
       http2_push (opts en) \<and> http2_pushAssets (opts en) = None \<and>
       http2_shouldPush (opts en) = None \<and> getPreloadFiles r () = Inr pf \<longrightarrow>
       headerValues ''Link'' (eventsSince w1 (snd (nuxtMiddleware en req w))) =
         (if links = [] then [] else [HString (join '', '' links)]))"
proof -
  have l: "pushLink (publicPath en) (opts en) =
        (\<lambda>p. ''<'' @ publicPath en @ file p @ ''>; rel='' @
                         (if modern p then ''modulepreload'' else ''preload'') @ '';'' @
                         (case build_crossorigin (opts en) of
                            None \<Rightarrow> []
                          | Some c \<Rightarrow> if c = [] then [] else '' crossorigin='' @ c @ '';'') @
                         '' as='' @ asType p)"
    by (rule ext) (simp add: pushLink_def Let_def)
  have a: "defaultPushAssets pf None (publicPath en) (opts en) w0 =
             (map (pushLink (publicPath en) (opts en))
                (filter (\<lambda>p. asType p = ''script'' \<or> asType p = ''style'') pf), w0)"
    by (rule defaultPushAssets_None)
  have b: "headerValues ''Link'' (eventsSince w1 (snd (nuxtMiddleware en req w))) =
         (let links = map (pushLink (publicPath en) (opts en))
                          (filter (\<lambda>p. asType p = ''script'' \<or> asType p = ''style'') pf)
            in if links = [] then [] else [HString (join '', '' links)])"
    if h: "decodeURI en (url req) = Inr u"
       "nuxtMiddleware_render en u (w\<lparr>res_statusCode := 200\<rparr>) = (Inr r, w1)"
       "\<not> redirected r" "error r = None"
       "case render_etag (opts en) of
          None \<Rightarrow> True
        | Some eo \<Rightarrow> \<not> fresh en (headers req) (generateETag en (html r) eo)"
       "http2_push (opts en)" "http2_pushAssets (opts en) = None"
       "http2_shouldPush (opts en) = None" "getPreloadFiles r () = Inr pf"
  proof -
    obtain x w' where x: "nuxtMiddleware_respond en req u r w1 = (x, w')"
      by (cases "nuxtMiddleware_respond en req u r w1") auto
    from push_respond [OF h(3-9) x] obtain evs where
      t: "trace w' = trace w1 @ evs" and
      p: "headerValues ''Link'' evs =
             (let links = map (pushLink (publicPath en) (opts en))
                            (filter (\<lambda>p. asType p = ''script'' \<or> asType p = ''style'') pf)
              in if links = [] then [] else [HString (join '', '' links)])"
      by blast
    have "headerValues ''Link'' (eventsSince w1 (snd (nuxtMiddleware en req w))) =
            headerValues ''Link'' evs"
      using x t
      by (cases x)
         (simp_all add: nuxtMiddleware_rendered [OF h(1,2)] eventsSince_def emit_def
            headerValues_append)
    with p show ?thesis by simp
  qed
  show ?thesis
    unfolding Let_def l [symmetric] using a b by (simp add: Let_def)
qed

text \<open>The example site: a script, a style sheet and a font.\<close>

theorem default_push_links_witness:
  "defaultPushAssets assets None ''/_nuxt/'' site start =
     ([''</_nuxt/app.js>; rel=preload; as=script'', ''</_nuxt/app.css>; rel=preload; as=style''],
      start) \<and>
   headerValues ''Link''
     (eventsSince (rendered (Some (error page)) ''/'' page)
        (snd (nuxtMiddleware (server site (renders page)) (GET ''/'' []) start))) =
     [HString ''</_nuxt/app.js>; rel=preload; as=script, </_nuxt/app.css>; rel=preload; as=style'']"
proof -
  let ?en = "server site (renders page)"
  let ?req = "GET ''/'' []"
  have d: "decodeURI ?en (url ?req) = Inr ''/''" by (rule decode_example)
  have r: "nuxtMiddleware_render ?en ''/'' (start\<lparr>res_statusCode := 200\<rparr>) =
             (Inr page, rendered (Some (error page)) ''/'' page)"
    unfolding renders_def by (rule render_example)
  have h: "\<not> redirected page" "error page = None"
    "case render_etag (opts ?en) of
          None \<Rightarrow> True
        | Some eo \<Rightarrow> \<not> fresh ?en (headers ?req) (generateETag ?en (html page) eo)"
    "http2_push (opts ?en)" "http2_pushAssets (opts ?en) = None"
    "http2_shouldPush (opts ?en) = None" "getPreloadFiles page () = Inr assets"
    by (simp_all add: example_defs)
  have o: "publicPath ?en = ''/_nuxt/''" "opts ?en = site" by (simp_all add: server_def)
  from default_push_links [of ?en assets start ?req "''/''" start page
         "rendered (Some (error page)) ''/'' page"] d r h
  show ?thesis
    by (simp add: o Let_def) (simp add: assets_def site_def)
qed

subsection \<open>C8: exceptions\<close>

text \<open>
  C8. For every exception thrown in the body of \<open>try\<close>, whether it is thrown by
  \<open>renderRoute\<close>, by the awaited \<open>render:route\<close> hook, by line 29 reading
  \<open>context.nuxt.error.statusCode\<close> off a missing \<open>context.nuxt\<close> or a missing
  \<open>context.nuxt.error\<close>, by \<open>getPreloadFiles\<close>, by the \<open>pushAssets\<close> function, by
  \<open>getCspString\<close>, or by \<open>res.end\<close> refusing the status code: when
  \<open>context.redirected\<close> is false in the state \<open>w'\<close> the exception leaves behind, the
  handler calls \<open>next\<close> with the exception and returns \<open>undefined\<close>; when it is
  true, the handler logs the exception with \<open>consola.error\<close> and returns it, and does
  not call \<open>next\<close>. These are all the calls by which the body throws
  (\<open>try_throws_sources\<close>).
\<close>

theorem thrown_error_forwarded:
  assumes "decodeURI en (url req) = Inr u"
      and "renderRoute en u (w\<lparr>res_statusCode := 200\<rparr>) = (Inl err, w') \<or>
           renderRoute en u (w\<lparr>res_statusCode := 200\<rparr>) = (Inr r0, w0) \<and>
             awaitHook en ''render:route'' u r0 (emit (CallHook ''render:route'' u r0) w0) =
               (Inl err, w') \<or>
           nuxtMiddleware_render en u (w\<lparr>res_statusCode := 200\<rparr>) = (Inr r, w1) \<and>
           \<not> redirected r \<and>
             (error r \<noteq> None \<and> context_nuxt w1 = None \<and>
                err = TypeError ''Cannot read property 'error' of undefined'' \<and> w' = w1 \<or>
              error r \<noteq> None \<and> context_nuxt w1 = Some None \<and>
                err = TypeError ''Cannot read property 'statusCode' of null'' \<and> w' = w1 \<or>
              error r = None \<and> etagStep en req u r w1 = (None, w') \<and> http2_push (opts en) \<and>
                getPreloadFiles r () = Inl err \<or>
              error r = None \<and> etagStep en req u r w1 = (None, w3) \<and> http2_push (opts en) \<and>
                getPreloadFiles r () = Inr pf \<and> http2_pushAssets (opts en) = Some pa \<and>
                pa req (publicPath en) pf w3 = (Inl err, w') \<or>
              errorStatus r w1 = Inr w2 \<and> etagStep en req u r w2 = (None, w3) \<and>
                pushStep en req r w3 = (None, w') \<and> render_csp (opts en) = Some csp \<and>
                fst (getCspString (cspScriptSrcHashSet r) (allowedSources csp) (policies csp)
                       (dev (opts en))) = Inl err \<or>
              errorStatus r w1 = Inr w2 \<and> etagStep en req u r w2 = (None, w3) \<and>
                pushStep en req r w3 = (None, w4) \<and> cspStep en r w4 = (None, r', w5) \<and>
                \<not> (100 \<le> res_statusCode w5 \<and> res_statusCode w5 \<le> 999) \<and>
                err = RangeError ''Invalid status code'' \<and>
                w' = w5\<lparr>trace := trace w5 @
                        [SetHeader ''Content-Type'' (HString ''text/html; charset=utf-8''),
                         SetHeader ''Accept-Ranges'' (HString ''none''),
                         SetHeader ''Content-Length'' (HNumber (length (html r')))]\<rparr>)"
  shows "nuxtMiddleware en req w =
           (if context_redirected w'
            then (Inr (Err err), w'\<lparr>trace := trace w' @ [ConsolaError err]\<rparr>)
            else (Inr Undefined, w'\<lparr>trace := trace w' @ [Next err]\<rparr>))"
proof -
  have t: "nuxtMiddleware_try en req u (w\<lparr>res_statusCode := 200\<rparr>) = (Inl err, w')"
    using assms(2)
  proof (elim disjE conjE)
    assume "renderRoute en u (w\<lparr>res_statusCode := 200\<rparr>) = (Inl err, w')"
    then show ?thesis by (simp add: nuxtMiddleware_try_def nuxtMiddleware_render_def)
  next
    assume "renderRoute en u (w\<lparr>res_statusCode := 200\<rparr>) = (Inr r0, w0)"
      "awaitHook en ''render:route'' u r0 (emit (CallHook ''render:route'' u r0) w0) =
               (Inl err, w')"
    then show ?thesis by (simp add: nuxtMiddleware_try_def nuxtMiddleware_render_def)
  next
    assume "nuxtMiddleware_render en u (w\<lparr>res_statusCode := 200\<rparr>) = (Inr r, w1)"
      "\<not> redirected r" "error r \<noteq> None" "context_nuxt w1 = None"
      "err = TypeError ''Cannot read property 'error' of undefined''" "w' = w1"
    then show ?thesis
      by (auto simp: nuxtMiddleware_try_def nuxtMiddleware_respond_def errorStatus_def)
  next
    assume "nuxtMiddleware_render en u (w\<lparr>res_statusCode := 200\<rparr>) = (Inr r, w1)"
      "\<not> redirected r" "error r \<noteq> None" "context_nuxt w1 = Some None"
      "err = TypeError ''Cannot read property 'statusCode' of null''" "w' = w1"
    then show ?thesis
      by (auto simp: nuxtMiddleware_try_def nuxtMiddleware_respond_def errorStatus_def)
  next
    assume "nuxtMiddleware_render en u (w\<lparr>res_statusCode := 200\<rparr>) = (Inr r, w1)"
      "\<not> redirected r" "error r = None" "etagStep en req u r w1 = (None, w')"
      "http2_push (opts en)" "getPreloadFiles r () = Inl err"
    then show ?thesis
      by (simp add: nuxtMiddleware_try_def nuxtMiddleware_respond_def errorStatus_def
            pushStep_def)
  next
    assume "nuxtMiddleware_render en u (w\<lparr>res_statusCode := 200\<rparr>) = (Inr r, w1)"
      "\<not> redirected r" "error r = None" "etagStep en req u r w1 = (None, w3)"
      "http2_push (opts en)" "getPreloadFiles r () = Inr pf"
      "http2_pushAssets (opts en) = Some pa" "pa req (publicPath en) pf w3 = (Inl err, w')"
    then show ?thesis
      by (simp add: nuxtMiddleware_try_def nuxtMiddleware_respond_def errorStatus_def
            pushStep_def)
  next
    assume "nuxtMiddleware_render en u (w\<lparr>res_statusCode := 200\<rparr>) = (Inr r, w1)"
      "\<not> redirected r" "errorStatus r w1 = Inr w2" "etagStep en req u r w2 = (None, w3)"
      "pushStep en req r w3 = (None, w')" "render_csp (opts en) = Some csp"
      "fst (getCspString (cspScriptSrcHashSet r) (allowedSources csp) (policies csp)
                       (dev (opts en))) = Inl err"
    then show ?thesis
      by (cases "getCspString (cspScriptSrcHashSet r) (allowedSources csp) (policies csp)
                   (dev (opts en))")
         (simp add: nuxtMiddleware_try_def nuxtMiddleware_respond_def cspStep_def Let_def)
  next
    assume "nuxtMiddleware_render en u (w\<lparr>res_statusCode := 200\<rparr>) = (Inr r, w1)"
      "\<not> redirected r" "errorStatus r w1 = Inr w2" "etagStep en req u r w2 = (None, w3)"
      "pushStep en req r w3 = (None, w4)" "cspStep en r w4 = (None, r', w5)"
      "\<not> (100 \<le> res_statusCode w5 \<and> res_statusCode w5 \<le> 999)"
      "err = RangeError ''Invalid status code''"
      "w' = w5\<lparr>trace := trace w5 @
                        [SetHeader ''Content-Type'' (HString ''text/html; charset=utf-8''),
                         SetHeader ''Accept-Ranges'' (HString ''none''),
                         SetHeader ''Content-Length'' (HNumber (length (html r')))]\<rparr>"
    then show ?thesis
      by (simp add: nuxtMiddleware_try_def nuxtMiddleware_respond_def sendResponse_refused)
  qed
  then show ?thesis
    using assms(1) by (simp add: nuxtMiddleware_def emit_def)
qed

text \<open>A renderer that throws, without and with a redirect before; line 29 on a page
  whose error a listener set; a \<open>getPreloadFiles\<close> that throws; a policy value that
  is a string; and an error whose \<open>statusCode\<close> is 42.\<close>

theorem thrown_error_forwarded_witness:
  "nuxtMiddleware (server site (throws (Error ''render failed'') False)) (GET ''/'' []) start =
     (Inr Undefined,
      \<lparr>res_statusCode = 200, context_nuxt = None, context_redirected = False,
       trace = [Next (Error ''render failed'')]\<rparr>) \<and>
   nuxtMiddleware (server site (throws (Error ''render failed'') True)) (GET ''/'' []) start =
     (Inr (Err (Error ''render failed'')),
      \<lparr>res_statusCode = 200, context_nuxt = None, context_redirected = True,
       trace = [ConsolaError (Error ''render failed'')]\<rparr>) \<and>
   nuxtMiddleware ((server site (renders page))
         \<lparr>awaitHook := setsError \<lparr>error_statusCode = Some 404\<rparr>\<rparr>) (GET ''/missing'' []) start =
     (Inr Undefined,
      \<lparr>res_statusCode = 200, context_nuxt = Some None, context_redirected = False,
       trace = [CallHook ''render:route'' ''/missing'' page,
                Next (TypeError ''Cannot read property 'statusCode' of null'')]\<rparr>) \<and>
   nuxtMiddleware (server site (renders (page\<lparr>getPreloadFiles := noPreloads\<rparr>)))
       (GET ''/'' []) start =
     (Inr Undefined,
      \<lparr>res_statusCode = 200, context_nuxt = Some None, context_redirected = False,
       trace = [CallHook ''render:route'' ''/'' (page\<lparr>getPreloadFiles := noPreloads\<rparr>),
                SetHeader ''ETag'' (HString ''tag-<html></html>''),
                Next (Error ''no client manifest'')]\<rparr>) \<and>
   fst (nuxtMiddleware (server (site\<lparr>render_csp := Some stringPolicy\<rparr>) (renders page))
          (GET ''/'' []) start) = Inr Undefined \<and>
   last (trace (snd (nuxtMiddleware
          (server (site\<lparr>render_csp := Some stringPolicy\<rparr>) (renders page))
          (GET ''/'' []) start))) = Next (TypeError ''v.join is not a function'') \<and>
   fst (nuxtMiddleware (server site (renders (failed (Some 42)))) (GET ''/missing'' []) start) =
     Inr Undefined \<and>
   last (trace (snd (nuxtMiddleware (server site (renders (failed (Some 42))))
          (GET ''/missing'' []) start))) = Next (RangeError ''Invalid status code'')"
proof -
  let ?e = "Error ''render failed''"
  have d1: "decodeURI (server site (throws ?e False)) (url (GET ''/'' [])) = Inr ''/''"
    by (rule decode_example)
  have t1: "renderRoute (server site (throws ?e False)) ''/'' (start\<lparr>res_statusCode := 200\<rparr>) =
            (Inl ?e, \<lparr>res_statusCode = 200, context_nuxt = None, context_redirected = False,
                      trace = []\<rparr>)"
    by (simp add: server_def throws_def start_def)
  note w1 = thrown_error_forwarded [OF d1 disjI1, OF t1]
  have d2: "decodeURI (server site (throws ?e True)) (url (GET ''/'' [])) = Inr ''/''"
    by (rule decode_example)
  have t2: "renderRoute (server site (throws ?e True)) ''/'' (start\<lparr>res_statusCode := 200\<rparr>) =
            (Inl ?e, \<lparr>res_statusCode = 200, context_nuxt = None, context_redirected = True,
                      trace = []\<rparr>)"
    by (simp add: server_def throws_def start_def)
  note w2 = thrown_error_forwarded [OF d2 disjI1, OF t2]
  let ?en3 = "(server site (renders page))\<lparr>awaitHook := setsError \<lparr>error_statusCode = Some 404\<rparr>\<rparr>"
  let ?s3 = "\<lparr>res_statusCode = 200, context_nuxt = Some None, context_redirected = False,
              trace = [CallHook ''render:route'' ''/missing'' page]\<rparr>"
  have d3: "decodeURI ?en3 (url (GET ''/missing'' [])) = Inr ''/missing''"
    by (simp add: server_def GET_def)
  have r3: "nuxtMiddleware_render ?en3 ''/missing'' (start\<lparr>res_statusCode := 200\<rparr>) =
              (Inr (failed (Some 404)), ?s3)"
    by (simp add: example_defs nuxtMiddleware_render_def emit_def)
  have n3: "\<not> redirected (failed (Some 404))" by (simp add: failed_def page_def)
  have c3: "error (failed (Some 404)) \<noteq> None \<and> context_nuxt ?s3 = Some None \<and>
            TypeError ''Cannot read property 'statusCode' of null'' =
              TypeError ''Cannot read property 'statusCode' of null'' \<and> ?s3 = ?s3"
    by (simp add: failed_def)
  have w3: "nuxtMiddleware ?en3 (GET ''/missing'' []) start =
           (if context_redirected ?s3
            then (Inr (Err (TypeError ''Cannot read property 'statusCode' of null'')),
                  ?s3\<lparr>trace := trace ?s3 @
                    [ConsolaError (TypeError ''Cannot read property 'statusCode' of null'')]\<rparr>)
            else (Inr Undefined,
                  ?s3\<lparr>trace := trace ?s3 @
                    [Next (TypeError ''Cannot read property 'statusCode' of null'')]\<rparr>))"
    by (rule thrown_error_forwarded
          [OF d3 disjI2 [OF disjI2 [OF conjI [OF r3 conjI [OF n3 disjI2 [OF disjI1 [OF c3]]]]]]])
  let ?r4 = "page\<lparr>getPreloadFiles := noPreloads\<rparr>"
  let ?en4 = "server site (renders ?r4)"
  let ?s4 = "\<lparr>res_statusCode = 200, context_nuxt = Some None, context_redirected = False,
              trace = [CallHook ''render:route'' ''/'' ?r4,
                       SetHeader ''ETag'' (HString ''tag-<html></html>'')]\<rparr>"
  have d4: "decodeURI ?en4 (url (GET ''/'' [])) = Inr ''/''" by (rule decode_example)
  have r4: "nuxtMiddleware_render ?en4 ''/'' (start\<lparr>res_statusCode := 200\<rparr>) =
              (Inr ?r4, rendered (Some None) ''/'' ?r4)"
    by (simp add: example_defs nuxtMiddleware_render_def emit_def)
  have n4: "\<not> redirected ?r4" by (simp add: page_def)
  have c4: "error ?r4 = None \<and>
            etagStep ?en4 (GET ''/'' []) ''/'' ?r4 (rendered (Some None) ''/'' ?r4) = (None, ?s4) \<and>
            http2_push (opts ?en4) \<and> getPreloadFiles ?r4 () = Inl (Error ''no client manifest'')"
    by (simp add: example_defs etagStep_def emit_def)
  have w4: "nuxtMiddleware ?en4 (GET ''/'' []) start =
           (if context_redirected ?s4
            then (Inr (Err (Error ''no client manifest'')),
                  ?s4\<lparr>trace := trace ?s4 @ [ConsolaError (Error ''no client manifest'')]\<rparr>)
            else (Inr Undefined,
                  ?s4\<lparr>trace := trace ?s4 @ [Next (Error ''no client manifest'')]\<rparr>))"
    by (rule thrown_error_forwarded
          [OF d4 disjI2 [OF disjI2 [OF conjI [OF r4 conjI [OF n4
             disjI2 [OF disjI2 [OF disjI1 [OF c4]]]]]]]])
  let ?en5 = "server (site\<lparr>render_csp := Some stringPolicy\<rparr>) (renders page)"
  let ?e5 = "\<lparr>res_statusCode = 200, context_nuxt = Some None, context_redirected = False,
              trace = [CallHook ''render:route'' ''/'' page,
                       SetHeader ''ETag'' (HString ''tag-<html></html>'')]\<rparr>"
  let ?s5 = "\<lparr>res_statusCode = 200, context_nuxt = Some None, context_redirected = False,
              trace = [CallHook ''render:route'' ''/'' page,
                       SetHeader ''ETag'' (HString ''tag-<html></html>''),
                       SetHeader ''Link'' (HString
    ''</_nuxt/app.js>; rel=preload; as=script, </_nuxt/app.css>; rel=preload; as=style'')]\<rparr>"
  have d5: "decodeURI ?en5 (url (GET ''/'' [])) = Inr ''/''" by (rule decode_example)
  have r5: "nuxtMiddleware_render ?en5 ''/'' (start\<lparr>res_statusCode := 200\<rparr>) =
              (Inr page, rendered (Some None) ''/'' page)"
    by (simp add: example_defs nuxtMiddleware_render_def emit_def)
  have n5: "\<not> redirected page" by (simp add: page_def)
  have c5: "errorStatus page (rendered (Some None) ''/'' page) =
              Inr (rendered (Some None) ''/'' page) \<and>
            etagStep ?en5 (GET ''/'' []) ''/'' page (rendered (Some None) ''/'' page) = (None, ?e5) \<and>
            pushStep ?en5 (GET ''/'' []) page ?e5 = (None, ?s5) \<and>
            render_csp (opts ?en5) = Some stringPolicy \<and>
            fst (getCspString (cspScriptSrcHashSet page) (allowedSources stringPolicy)
                  (policies stringPolicy) (dev (opts ?en5))) =
              Inl (TypeError ''v.join is not a function'')"
    by (simp add: example_defs handler_defs)
  have w5: "nuxtMiddleware ?en5 (GET ''/'' []) start =
           (if context_redirected ?s5
            then (Inr (Err (TypeError ''v.join is not a function'')),
                  ?s5\<lparr>trace := trace ?s5 @ [ConsolaError (TypeError ''v.join is not a function'')]\<rparr>)
            else (Inr Undefined,
                  ?s5\<lparr>trace := trace ?s5 @ [Next (TypeError ''v.join is not a function'')]\<rparr>))"
    by (rule thrown_error_forwarded
          [OF d5 disjI2 [OF disjI2 [OF conjI [OF r5 conjI [OF n5
             disjI2 [OF disjI2 [OF disjI2 [OF disjI2 [OF disjI1 [OF c5]]]]]]]]]])
  let ?r6 = "failed (Some 42)"
  let ?en6 = "server site (renders ?r6)"
  let ?a6 = "\<lparr>res_statusCode = 42, context_nuxt = Some (Some \<lparr>error_statusCode = Some 42\<rparr>),
              context_redirected = False,
              trace = [CallHook ''render:route'' ''/missing'' ?r6]\<rparr>"
  let ?b6 = "\<lparr>res_statusCode = 42, context_nuxt = Some (Some \<lparr>error_statusCode = Some 42\<rparr>),
              context_redirected = False,
              trace = [CallHook ''render:route'' ''/missing'' ?r6,
                       SetHeader ''Content-Security-Policy''
                         (HString (''script-src 'self' '' @ sha256_abc))]\<rparr>"
  let ?s6 = "?b6\<lparr>trace := trace ?b6 @
                        [SetHeader ''Content-Type'' (HString ''text/html; charset=utf-8''),
                         SetHeader ''Accept-Ranges'' (HString ''none''),
                         SetHeader ''Content-Length'' (HNumber (length (html ?r6)))]\<rparr>"
  have d6: "decodeURI ?en6 (url (GET ''/missing'' [])) = Inr ''/missing''" by (rule decode_example)
  have r6: "nuxtMiddleware_render ?en6 ''/missing'' (start\<lparr>res_statusCode := 200\<rparr>) =
              (Inr ?r6, rendered (Some (error ?r6)) ''/missing'' ?r6)"
    unfolding renders_def by (rule render_example)
  have n6: "\<not> redirected ?r6" by (simp add: failed_def page_def)
  have c6: "errorStatus ?r6 (rendered (Some (error ?r6)) ''/missing'' ?r6) = Inr ?a6 \<and>
            etagStep ?en6 (GET ''/missing'' []) ''/missing'' ?r6 ?a6 = (None, ?a6) \<and>
            pushStep ?en6 (GET ''/missing'' []) ?r6 ?a6 = (None, ?a6) \<and>
            cspStep ?en6 ?r6 ?a6 = (None, ?r6, ?b6) \<and>
            \<not> (100 \<le> res_statusCode ?b6 \<and> res_statusCode ?b6 \<le> 999) \<and>
            RangeError ''Invalid status code'' = RangeError ''Invalid status code'' \<and>
            ?s6 = ?s6"
    by (simp add: example_defs handler_defs)
  have w6: "nuxtMiddleware ?en6 (GET ''/missing'' []) start =
           (if context_redirected ?s6
            then (Inr (Err (RangeError ''Invalid status code'')),
                  ?s6\<lparr>trace := trace ?s6 @ [ConsolaError (RangeError ''Invalid status code'')]\<rparr>)
            else (Inr Undefined,
                  ?s6\<lparr>trace := trace ?s6 @ [Next (RangeError ''Invalid status code'')]\<rparr>))"
    by (rule thrown_error_forwarded
          [OF d6 disjI2 [OF disjI2 [OF conjI [OF r6 conjI [OF n6
             disjI2 [OF disjI2 [OF disjI2 [OF disjI2 [OF disjI2 [OF c6]]]]]]]]]])
  show ?thesis
    using w1 w2 w3 w4 w5 w6 by simp
qed

subsection \<open>C9: the hash set is mutated\<close>

text \<open>
  C9, as stated, has the hash set gain \<open>'self'\<close> whenever \<open>policies\<close> is a plain
  object. When \<open>allowedSources\<close> is an array, \<open>getCspString\<close> returns at line 122,
  before it looks at \<open>policies\<close>, and the set is left as it was.
\<close>

theorem policy_object_mutates_hash_set_counterexample:
  "self_src \<notin> set (snd (getCspString [sha256_abc] (Some [''https://cdn.example.com''])
                          (Some [(''default-src'', PolicyArray [none_src])]) False)) \<and>
   snd (getCspString [sha256_abc] (Some [''https://cdn.example.com''])
          (Some [(''default-src'', PolicyArray [none_src])]) False) = [sha256_abc]"
  by (simp add: getCspString_def self_src_def sha256_abc_def)

text \<open>
  C9, amended. When \<open>allowedSources\<close> is not an array and \<open>policies\<close> is a plain
  object, \<open>getCspString\<close> leaves the hash set as \<open>transformPolicyObject\<close> does:
  its former members in their order, then \<open>'self'\<close> and, when \<open>policies['script-src']\<close>
  is an array, the entries of that array, each added unless already a member. The
  object \<open>transformPolicyObject\<close> returns maps \<open>script-src\<close> to the members of that
  set and has every other entry of \<open>policies\<close>, unchanged and in the same order.
\<close>

theorem policy_object_mutates_hash_set:
  "let (obj, hs') = transformPolicyObject ps hs in
     snd (getCspString hs None (Some ps) isDev) = hs' \<and>
     set hs' = set hs \<union> {self_src} \<union>
       (case map_of ps ''script-src'' of Some (PolicyArray srcs) \<Rightarrow> set srcs | _ \<Rightarrow> {}) \<and>
     prefix hs hs' \<and>
     map_of obj ''script-src'' = Some (PolicyArray hs') \<and>
     (\<forall>k. k \<noteq> ''script-src'' \<longrightarrow> map_of obj k = map_of ps k) \<and>
     filter (\<lambda>kv. fst kv \<noteq> ''script-src'') obj = filter (\<lambda>kv. fst kv \<noteq> ''script-src'') ps"
proof -
  obtain obj hs' where t: "transformPolicyObject ps hs = (obj, hs')"
    by (cases "transformPolicyObject ps hs") auto
  have obj: "obj = AList.update ''script-src'' (PolicyArray hs') ps"
    using t by (auto simp: transformPolicyObject_def Let_def)
  have hs': "hs' = fold (\<lambda>src s. Set_add s src)
       (case map_of ps ''script-src'' of Some (PolicyArray srcs) \<Rightarrow> new_Set srcs | _ \<Rightarrow> [])
       (Set_add hs self_src)"
    using transformPolicyObject_set [of ps hs] t by simp
  have 1: "snd (getCspString hs None (Some ps) isDev) = hs'"
    by (simp add: getCspString_policies_snd t)
  have 2: "set hs' = set hs \<union> {self_src} \<union>
       (case map_of ps ''script-src'' of Some (PolicyArray srcs) \<Rightarrow> set srcs | _ \<Rightarrow> {})"
    by (auto simp: hs' set_fold_Set_add set_Set_add set_new_Set
          split: option.splits policy_value.splits)
  have "prefix hs (Set_add hs self_src)" by (rule prefix_Set_add)
  also have "prefix (Set_add hs self_src) hs'" unfolding hs' by (rule prefix_fold_Set_add)
  finally have 3: "prefix hs hs'" .
  have 4: "map_of obj ''script-src'' = Some (PolicyArray hs')"
    by (simp add: obj update_conv')
  have 5: "\<forall>k. k \<noteq> ''script-src'' \<longrightarrow> map_of obj k = map_of ps k"
    by (simp add: obj update_conv')
  have 6: "filter (\<lambda>kv. fst kv \<noteq> ''script-src'') obj = filter (\<lambda>kv. fst kv \<noteq> ''script-src'') ps"
    unfolding obj by (rule filter_update)
  show ?thesis using 1 2 3 4 5 6 by (simp add: t)
qed

text \<open>A policy object with a \<open>default-src\<close> and a \<open>script-src\<close> array.\<close>

theorem policy_object_mutates_hash_set_witness:
  "''default-src'' \<noteq> ''script-src'' \<and>
   snd (getCspString [sha256_abc] None
          (Some [(''default-src'', PolicyArray [none_src]),
                 (''script-src'', PolicyArray [''https://cdn.example.com''])]) False) =
     [sha256_abc, self_src, ''https://cdn.example.com''] \<and>
   map_of (fst (transformPolicyObject
                  [(''default-src'', PolicyArray [none_src]),
                   (''script-src'', PolicyArray [''https://cdn.example.com''])] [sha256_abc]))
     ''default-src'' = Some (PolicyArray [none_src])"
proof -
  have t: "transformPolicyObject
             [(''default-src'', PolicyArray [none_src]),
              (''script-src'', PolicyArray [''https://cdn.example.com''])] [sha256_abc] =
           ([(''default-src'', PolicyArray [none_src]),
             (''script-src'', PolicyArray [sha256_abc, self_src, ''https://cdn.example.com''])],
            [sha256_abc, self_src, ''https://cdn.example.com''])"
    by (simp add: transformPolicyObject_def Set_add_def new_Set_def self_src_def sha256_abc_def
          Let_def)
  from policy_object_mutates_hash_set
         [of "[(''default-src'', PolicyArray [none_src]),
               (''script-src'', PolicyArray [''https://cdn.example.com''])]" "[sha256_abc]" False]
  show ?thesis by (simp add: t)
qed

subsection \<open>C10: the value returned\<close>

text \<open>
  C10. Whenever the body of \<open>try\<close> completes without an exception, the handler
  returns \<open>undefined\<close> if it took the 304 exit (a result that is not redirected and
  has no error, the \<open>etag\<close> option set, a fresh tag), and the HTML of the result
  otherwise, that is for a redirected result and after a response written in full.
\<close>

theorem return_value:
  assumes "decodeURI en (url req) = Inr u"
      and "nuxtMiddleware_render en u (w\<lparr>res_statusCode := 200\<rparr>) = (Inr r, w1)"
      and "fst (nuxtMiddleware_respond en req u r w1) = Inr v"
  shows "fst (nuxtMiddleware en req w) = Inr v \<and>
         v = (if \<not> redirected r \<and> error r = None \<and>
                 (case render_etag (opts en) of
                    None \<Rightarrow> False
                  | Some eo \<Rightarrow> fresh en (headers req) (generateETag en (html r) eo))
              then Undefined else Html (html r))"
proof
  show "fst (nuxtMiddleware en req w) = Inr v"
    using assms(3)
    by (cases "nuxtMiddleware_respond en req u r w1")
       (simp add: nuxtMiddleware_rendered [OF assms(1,2)])
  show "v = (if \<not> redirected r \<and> error r = None \<and>
                 (case render_etag (opts en) of
                    None \<Rightarrow> False
                  | Some eo \<Rightarrow> fresh en (headers req) (generateETag en (html r) eo))
              then Undefined else Html (html r))"
    by (rule respond_value [OF assms(3)])
qed

text \<open>The example site: a fresh tag, no conditional header, and a redirected page
  requested with a fresh tag.\<close>

theorem return_value_witness:
  "fst (nuxtMiddleware (server site (renders page))
         (GET ''/'' [(''if-none-match'', ''tag-<html></html>'')]) start) = Inr Undefined \<and>
   fst (nuxtMiddleware (server site (renders page)) (GET ''/'' []) start) =
     Inr (Html ''<html></html>'') \<and>
   fst (nuxtMiddleware (server site (renders moved))
         (GET ''/old'' [(''if-none-match'', ''tag-<html></html>'')]) start) =
     Inr (Html ''<html></html>'')"
proof -
  let ?en = "server site (renders page)"
  let ?hit = "GET ''/'' [(''if-none-match'', ''tag-<html></html>'')]"
  let ?miss = "GET ''/'' []"
  have d1: "decodeURI ?en (url ?hit) = Inr ''/''" by (rule decode_example)
  have d2: "decodeURI ?en (url ?miss) = Inr ''/''" by (rule decode_example)
  have r: "nuxtMiddleware_render ?en ''/'' (start\<lparr>res_statusCode := 200\<rparr>) =
             (Inr page, rendered (Some (error page)) ''/'' page)"
    unfolding renders_def by (rule render_example)
  have v1: "fst (nuxtMiddleware_respond ?en ?hit ''/'' page (rendered (Some (error page)) ''/'' page)) =
              Inr Undefined"
    by (simp add: example_defs handler_defs)
  have v2: "fst (nuxtMiddleware_respond ?en ?miss ''/'' page (rendered (Some (error page)) ''/'' page)) =
              Inr (Html ''<html></html>'')"
    by (simp add: example_defs handler_defs)
  let ?en' = "server site (renders moved)"
  let ?old = "GET ''/old'' [(''if-none-match'', ''tag-<html></html>'')]"
  have d3: "decodeURI ?en' (url ?old) = Inr ''/old''" by (rule decode_example)
  have r3: "nuxtMiddleware_render ?en' ''/old'' (start\<lparr>res_statusCode := 200\<rparr>) =
             (Inr moved, rendered (Some (error moved)) ''/old'' moved)"
    unfolding renders_def by (rule render_example)
  have v3: "fst (nuxtMiddleware_respond ?en' ?old ''/old'' moved
                   (rendered (Some (error moved)) ''/old'' moved)) = Inr (Html ''<html></html>'')"
    by (simp add: example_defs handler_defs)
  from return_value [OF d1 r v1] return_value [OF d2 r v2] return_value [OF d3 r3 v3]
  show ?thesis by simp
qed

end
